theory Spec2Isabelle
  imports Main
begin

section \<open>Utility command routing of the cluster coordinator (tcop/utility.c)\<close>

text \<open>
  A shallow embedding of the cluster build (the code under \<^verbatim>\<open>#ifdef ADB\<close>) of
  \<^verbatim>\<open>src/backend/tcop/utility.c\<close>: the remote dispatcher
  \<^verbatim>\<open>ExecRemoteUtilityStmt\<close>, the node target resolver
  \<^verbatim>\<open>ExecUtilityFindNodes\<close>, the drop pre-treatment, the arms of
  \<^verbatim>\<open>standard_ProcessUtility\<close> for transaction statements, DROP, TRUNCATE, SET,
  GRANT of a role and remote-query steps, and the recursion of
  \<^verbatim>\<open>ProcessUtilitySlow\<close> through sub-statements.

  Everything the file calls but does not define (catalog lookups, the transaction manager,
  the event trigger subsystem, the transport) is a collaborator. A read-only query of a
  collaborator is a field of the environment record \<open>env\<close>; a call with an effect is an
  \<open>event\<close> appended to the log of calls the code makes, and the environment says
  whether that call raises. An \<^verbatim>\<open>ereport(ERROR, ...)\<close> is the value \<open>Inl e\<close>; it ends
  the computation with the log written so far.
\<close>

subsection \<open>Catalog and node types\<close>

type_synonym Oid = nat

definition InvalidOid :: Oid where
  "InvalidOid = 0"

definition OidIsValid :: "Oid \<Rightarrow> bool" where
  "OidIsValid objectId = (objectId \<noteq> InvalidOid)"

datatype RemoteQueryExecType =
    EXEC_ON_DATANODES
  | EXEC_ON_COORDS
  | EXEC_ON_ALL_NODES
  | EXEC_ON_NONE

datatype ObjectType =
    OBJECT_AGGREGATE
  | OBJECT_COLLATION
  | OBJECT_DOMAIN
  | OBJECT_EXTENSION
  | OBJECT_FOREIGN_TABLE
  | OBJECT_FUNCTION
  | OBJECT_INDEX
  | OBJECT_MATVIEW
  | OBJECT_ROLE
  | OBJECT_RULE
  | OBJECT_SCHEMA
  | OBJECT_SEQUENCE
  | OBJECT_TABLE
  | OBJECT_TRIGGER
  | OBJECT_TYPE
  | OBJECT_VIEW

text \<open>
  The relation kinds \<^verbatim>\<open>get_rel_relkind\<close> can answer. The character codes are declared
  in the catalog headers; only their being distinct matters here. \<open>RELKIND_none\<close> is the
  answer for an identifier that names no relation.
\<close>

datatype relkind =
    RELKIND_RELATION
  | RELKIND_INDEX
  | RELKIND_SEQUENCE
  | RELKIND_TOASTVALUE
  | RELKIND_VIEW
  | RELKIND_COMPOSITE_TYPE
  | RELKIND_FOREIGN_TABLE
  | RELKIND_MATVIEW
  | RELKIND_none

datatype relpersistence =
    RELPERSISTENCE_PERMANENT
  | RELPERSISTENCE_UNLOGGED
  | RELPERSISTENCE_TEMP

record RangeVar =
  names :: "string list"
  relpersistence :: relpersistence

subsection \<open>Statements\<close>

datatype TransactionStmtKind =
    TRANS_STMT_BEGIN
  | TRANS_STMT_START
  | TRANS_STMT_COMMIT
  | TRANS_STMT_ROLLBACK
  | TRANS_STMT_SAVEPOINT
  | TRANS_STMT_RELEASE
  | TRANS_STMT_ROLLBACK_TO
  | TRANS_STMT_PREPARE
  | TRANS_STMT_COMMIT_PREPARED
  | TRANS_STMT_ROLLBACK_PREPARED

text \<open>A \<^verbatim>\<open>DefElem\<close> of an option list: its name and its argument as text.\<close>

type_synonym DefElem = "string \<times> string"

record TransactionStmt =
  kind :: TransactionStmtKind
  options :: "DefElem list"
  gid :: string
  xact_missing_ok :: bool

record RemoteQuery =
  sql_node :: "string option"
  exec_nodes :: "nat list option"
  sql_statement :: string
  force_autocommit :: bool
  exec_type :: RemoteQueryExecType
  is_temp :: bool

record CreateStmt =
  relation :: RangeVar
  distributeby :: bool

datatype AlterTableType =
    AT_AddColumn
  | AT_DropColumn
  | AT_AddIndex
  | AT_AddConstraint
  | AT_DistributeBy
  | AT_SubCluster
  | AT_AddNodeList
  | AT_DeleteNodeList

record AlterTableStmt =
  at_relation :: RangeVar
  cmds :: "AlterTableType list"
  at_relkind :: ObjectType

record IndexStmt =
  idx_relation :: RangeVar
  idx_concurrent :: bool
  isconstraint :: bool

record CreateSeqStmt =
  sequence :: RangeVar
  is_serial :: bool

record AlterSeqStmt =
  alt_sequence :: RangeVar
  alt_is_serial :: bool

record DropStmt =
  objects :: "string list list"
  removeType :: ObjectType
  missing_ok :: bool
  concurrent :: bool

record TruncateStmt =
  relations :: "RangeVar list"
  restart_seqs :: bool

record VariableSetStmt =
  var_name :: "string option"
  is_local :: bool

record CreateTableAsStmt =
  into_rel :: RangeVar
  into_skipData :: bool

record RefreshMatViewStmt =
  ref_relation :: RangeVar
  ref_skipData :: bool

text \<open>
  The parse trees the model covers. Parse analysis is a collaborator
  (\<^verbatim>\<open>transformCreateStmt\<close>, \<^verbatim>\<open>transformAlterTableStmt\<close>); a compound statement carries
  the list of sub-statements parse analysis gives for it, and CREATE TABLE also the
  transformed statement that \<^verbatim>\<open>transformCreateStmt\<close> hands back, when there is one.
  \<open>T_CreateDomainStmt\<close> stands for the slow-path kinds whose arm is a catalog handler
  followed by the dispatcher with the untouched context, and \<open>T_GrantRoleStmt\<close> for the
  fast-path kinds of that shape. TRUNCATE, SET, CREATE MATERIALIZED VIEW and REFRESH
  MATERIALIZED VIEW are the kinds whose arm sends to other nodes by a way of its own.
\<close>

datatype Node =
    T_TransactionStmt TransactionStmt
  | T_RemoteQuery RemoteQuery
  | T_CreateStmt CreateStmt "Node list" "Node option"
  | T_CreateForeignTableStmt CreateStmt "Node list" "Node option"
  | T_AlterTableStmt AlterTableStmt "Node list"
  | T_IndexStmt IndexStmt
  | T_CreateSeqStmt CreateSeqStmt
  | T_AlterSeqStmt AlterSeqStmt
  | T_DropStmt DropStmt
  | T_CreateDomainStmt string
  | T_GrantRoleStmt string
  | T_TruncateStmt TruncateStmt
  | T_VariableSetStmt VariableSetStmt
  | T_CreateTableAsStmt CreateTableAsStmt
  | T_RefreshMatViewStmt RefreshMatViewStmt

text \<open>
  Modelled from the spec: the enumeration \<^verbatim>\<open>ProcessUtilityContext\<close> is declared in the
  header \<^verbatim>\<open>tcop/utility.h\<close>, not in this file. The specification names a top-level
  statement, a non-top-level client statement and a generated sub-statement, and says that
  the first two are complete queries and the last is not. \<open>context_rank\<close> is the integer
  value of an enumerator, in that order; the comparison
  \<^verbatim>\<open>context <= PROCESS_UTILITY_QUERY\<close> reads it.
\<close>

datatype ProcessUtilityContext =
    PROCESS_UTILITY_TOPLEVEL
  | PROCESS_UTILITY_QUERY
  | PROCESS_UTILITY_SUBCOMMAND

fun context_rank :: "ProcessUtilityContext \<Rightarrow> nat" where
  "context_rank PROCESS_UTILITY_TOPLEVEL = 0"
| "context_rank PROCESS_UTILITY_QUERY = 1"
| "context_rank PROCESS_UTILITY_SUBCOMMAND = 2"

subsection \<open>Errors and collaborator calls\<close>

text \<open>
  The errors of the file, named after the specification's taxonomy, each carrying what
  the \<^verbatim>\<open>ereport\<close> says: \<open>NoDataNodesConfigured\<close> is "No Datanode defined in cluster",
  \<open>MixedPlacementError\<close> carries the statement kind ("DROP" or "CREATE") of
  "... not supported for TEMP and non-TEMP objects", \<open>UnsupportedFeature\<close> and
  \<open>StatementTooComplex\<close> carry their message, \<open>UndefinedObject\<close> is what
  \<^verbatim>\<open>DropTableThrowErrorExternal\<close> throws, \<open>ReadOnlyViolation\<close> and
  \<open>ParallelModeViolation\<close> carry the statement whose command tag the message names,
  \<open>NullDereference\<close> is reading the head of an empty list, \<open>InternalError\<close> is an
  \<^verbatim>\<open>elog(ERROR, ...)\<close> with its message, and \<open>CollaboratorError\<close> is an error raised
  inside a collaborator.
\<close>

datatype pg_error =
    NoDataNodesConfigured
  | MixedPlacementError string
  | UnsupportedFeature string
  | StatementTooComplex string
  | SyntaxError string
  | UndefinedObject
  | NoActiveTransactionBlock string
  | ReadOnlyViolation Node
  | ParallelModeViolation Node
  | RecoveryModeViolation string
  | UnrecognizedStatementKind
  | CacheLookupFailed Oid
  | NullDereference
  | InternalError string
  | CollaboratorError nat

datatype PoolCommandType =
    POOL_CMD_TEMP
  | POOL_CMD_LOCAL_SET
  | POOL_CMD_GLOBAL_SET

datatype event =
    Enter_ProcessUtility Node ProcessUtilityContext bool
  | ProcessUtility_hook_call Node ProcessUtilityContext bool
  | pgxc_lock_for_utility_stmt Node
  | ExecInterXactUtility RemoteQuery
  | HOLD_INTERRUPTS
  | RESUME_INTERRUPTS
  | RemoveRelations DropStmt
  | RemoveObjects DropStmt
  | get_object_address ObjectType "string list" bool
  | relation_close Oid
  | EventTriggerBeginCompleteQuery
  | EventTriggerEndCompleteQuery
  | EventTriggerDDLCommandStart Node
  | EventTriggerSQLDrop Node
  | EventTriggerDDLCommandEnd Node
  | EventTriggerCollectSimpleCommand Node
  | EventTriggerAlterTableStart Node
  | EventTriggerAlterTableRelid Oid
  | EventTriggerAlterTableEnd
  | CommandCounterIncrement
  | DefineRelation CreateStmt relkind
  | transformRelOptions CreateStmt
  | heap_reloptions CreateStmt
  | NewRelationCreateToastTable CreateStmt
  | CreateForeignTable CreateStmt
  | AlterTableLookupRelation AlterTableStmt
  | AlterTable Oid AlterTableStmt
  | RangeVarGetRelidExtended RangeVar
  | transformIndexStmt IndexStmt
  | DefineIndex IndexStmt
  | DefineSequence CreateSeqStmt
  | AlterSequence AlterSeqStmt
  | DefineDomain string
  | GrantRole string
  | ExecuteTruncate TruncateStmt string
  | ExecSetVariableStmt VariableSetStmt bool
  | PoolManagerSetCommand PoolCommandType string
  | ExecCreateTableAs CreateTableAsStmt
  | ExecRefreshMatView RefreshMatViewStmt
  | pgxc_send_matview_data RangeVar string
  | EventTriggerInhibitCommandCollection
  | EventTriggerUndoInhibitCommandCollection
  | BeginTransactionBlock
  | SetPGVariable string string
  | EndTransactionBlock
  | PrepareTransactionBlock string
  | PreventTransactionChain bool string
  | SetCurrentXactPhase2
  | FinishPreparedTransactionExt string bool bool
  | SetCurrentXactPhase1
  | UserAbortTransactionBlock
  | DefineSavepoint "string option"
  | ReleaseSavepoint "DefElem list"
  | RollbackToSavepoint "DefElem list"

text \<open>
  \<open>Enter_ProcessUtility\<close> is the one event that is no collaborator call: it records an
  entry into \<^verbatim>\<open>ProcessUtility\<close> with the context and the \<^verbatim>\<open>sentToRemote\<close> flag it
  was given.

  The environment: the session and cluster state the code reads, the answers of the
  catalog, and for every collaborator call whether it raises. \<open>RangeVarGetRelid\<close> is
  \<^verbatim>\<open>RangeVarGetRelid(rel, NoLock, true)\<close>, the only form the modelled code uses: it
  answers \<open>InvalidOid\<close> for a relation that does not exist, and it may raise (a
  reference into another database, for one).
\<close>

record env =
  IsCoordMaster :: bool
  IsConnFromCoord :: bool
  IS_PGXC_COORDINATOR :: bool
  NumDataNodes :: nat
  IsNormalProcessingMode :: bool
  XactReadOnly :: bool
  IsInParallelMode :: bool
  RecoveryInProgress :: bool
  IsTransactionBlock :: bool
  ProcessUtility_hook :: bool
  BeginCompleteQuery_result :: bool
  EndTransactionBlock_result :: bool
  PrepareTransactionBlock_result :: "string \<Rightarrow> bool"
  RangeVarGetRelid :: "RangeVar \<Rightarrow> pg_error + Oid"
  EventTriggerSupportsObjectType :: "ObjectType \<Rightarrow> bool"
  IsTempTable :: "Oid \<Rightarrow> bool"
  get_rel_relkind :: "Oid \<Rightarrow> relkind"
  IndexGetRelation :: "Oid \<Rightarrow> Oid option"
  object_relation :: "ObjectType \<Rightarrow> string list \<Rightarrow> Oid option"
  AlterTableLookupRelation_result :: "AlterTableStmt \<Rightarrow> Oid"
  PoolManagerSetCommand_result :: "PoolCommandType \<Rightarrow> string \<Rightarrow> int"
  ExecCreateTableAs_valid :: "CreateTableAsStmt \<Rightarrow> bool"
  saveNode :: "Node \<Rightarrow> string"
  raises :: "event \<Rightarrow> pg_error option"

subsection \<open>Computations that log their calls and may raise\<close>

type_synonym 'a exec = "(pg_error + 'a) \<times> event list"

definition outcome :: "'a exec \<Rightarrow> pg_error + 'a" where
  "outcome m = fst m"

definition events :: "'a exec \<Rightarrow> event list" where
  "events m = snd m"

definition return :: "'a \<Rightarrow> 'a exec" where
  "return v = (Inr v, [])"

definition skip :: "unit exec" where
  "skip = (Inr (), [])"

definition ereport :: "pg_error \<Rightarrow> 'a exec" where
  "ereport e = (Inl e, [])"

definition emit :: "event \<Rightarrow> unit exec" where
  "emit ev = (Inr (), [ev])"

definition call :: "env \<Rightarrow> event \<Rightarrow> unit exec" where
  "call en ev = ((case raises en ev of Some e \<Rightarrow> Inl e | None \<Rightarrow> Inr ()), [ev])"

definition bind :: "'a exec \<Rightarrow> ('a \<Rightarrow> 'b exec) \<Rightarrow> 'b exec" where
  "bind m f =
     (case fst m of
        Inl e \<Rightarrow> (Inl e, snd m)
      | Inr v \<Rightarrow> (fst (f v), snd m @ snd (f v)))"

definition seq :: "unit exec \<Rightarrow> 'b exec \<Rightarrow> 'b exec" where
  "seq m k = bind m (\<lambda>_. k)"

fun block :: "unit exec list \<Rightarrow> unit exec" where
  "block [] = skip"
| "block (m # ms) = seq m (block ms)"

definition lift :: "pg_error + 'a \<Rightarrow> 'a exec" where
  "lift r = (r, [])"

text \<open>A call whose result the caller drops.\<close>

definition discard :: "'a exec \<Rightarrow> unit exec" where
  "discard m = bind m (\<lambda>_. skip)"

text \<open>
  \<^verbatim>\<open>PG_TRY\<close> with a handler that ends in \<^verbatim>\<open>PG_RE_THROW\<close>: when the body raises, the
  handler runs and the error goes on.
\<close>

definition PG_TRY :: "'a exec \<Rightarrow> unit exec \<Rightarrow> 'a exec" where
  "PG_TRY body handler =
     (case outcome body of
        Inl e \<Rightarrow>
          (case outcome handler of
             Inl e' \<Rightarrow> (Inl e', events body @ events handler)
           | Inr _ \<Rightarrow> (Inl e, events body @ events handler))
      | Inr v \<Rightarrow> body)"

subsection \<open>The remote dispatcher\<close>

record RemoteUtilityContext =
  sentToRemote :: bool
  ctx_force_autocommit :: bool
  ctx_is_temp :: bool
  ctx_exec_type :: RemoteQueryExecType
  stmt :: "Node option"
  query :: string
  nodes :: "nat list option"

definition ExecRemoteUtilityStmt :: "env \<Rightarrow> RemoteUtilityContext \<Rightarrow> unit exec" where
  "ExecRemoteUtilityStmt en context =
     (if \<not> IsCoordMaster en then skip
      else if ctx_exec_type context = EXEC_ON_NONE then skip
      else if sentToRemote context then skip
      else if NumDataNodes en = 0 then ereport NoDataNodesConfigured
      else call en (ExecInterXactUtility
             \<lparr> sql_node = map_option (saveNode en) (stmt context),
               exec_nodes = nodes context,
               sql_statement = query context,
               force_autocommit = ctx_force_autocommit context,
               exec_type = ctx_exec_type context,
               is_temp = ctx_is_temp context \<rparr>))"

subsection \<open>The node target resolver\<close>

text \<open>
  Both resolvers return the execution type together with the flag the C code writes
  through \<^verbatim>\<open>is_temp\<close>; every branch writes it. \<^verbatim>\<open>IndexGetRelation(object_id, false)\<close>
  raises when the index has no catalog entry.
\<close>

definition ExecUtilityFindNodesRelkind :: "env \<Rightarrow> Oid \<Rightarrow> RemoteQueryExecType \<times> bool" where
  "ExecUtilityFindNodesRelkind en relid =
     (case get_rel_relkind en relid of
        RELKIND_SEQUENCE \<Rightarrow> (EXEC_ON_ALL_NODES, IsTempTable en relid)
      | RELKIND_RELATION \<Rightarrow> (EXEC_ON_ALL_NODES, IsTempTable en relid)
      | RELKIND_VIEW \<Rightarrow>
          (if IsTempTable en relid then (EXEC_ON_NONE, True) else (EXEC_ON_COORDS, False))
      | _ \<Rightarrow> (EXEC_ON_ALL_NODES, False))"

definition index_on_matview :: "env \<Rightarrow> Oid \<Rightarrow> pg_error + bool" where
  "index_on_matview en object_id =
     (if get_rel_relkind en object_id = RELKIND_MATVIEW then Inr True
      else if get_rel_relkind en object_id = RELKIND_INDEX then
        (case IndexGetRelation en object_id of
           None \<Rightarrow> Inl (CacheLookupFailed object_id)
         | Some heap \<Rightarrow> Inr (get_rel_relkind en heap = RELKIND_MATVIEW))
      else Inr False)"

definition ExecUtilityFindNodes ::
  "env \<Rightarrow> ObjectType \<Rightarrow> Oid \<Rightarrow> pg_error + (RemoteQueryExecType \<times> bool)" where
  "ExecUtilityFindNodes en object_type object_id =
     (case object_type of
        OBJECT_SEQUENCE \<Rightarrow> Inr (EXEC_ON_ALL_NODES, IsTempTable en object_id)
      | OBJECT_TABLE \<Rightarrow> Inr (ExecUtilityFindNodesRelkind en object_id)
      | OBJECT_TRIGGER \<Rightarrow> Inr (ExecUtilityFindNodesRelkind en object_id)
      | OBJECT_RULE \<Rightarrow>
          (if IsTempTable en object_id then Inr (EXEC_ON_NONE, True)
           else Inr (EXEC_ON_COORDS, False))
      | OBJECT_VIEW \<Rightarrow>
          (if IsTempTable en object_id then Inr (EXEC_ON_NONE, True)
           else Inr (EXEC_ON_COORDS, False))
      | OBJECT_INDEX \<Rightarrow>
          (if IsTempTable en object_id then Inr (EXEC_ON_DATANODES, True)
           else (case index_on_matview en object_id of
                   Inl e \<Rightarrow> Inl e
                 | Inr True \<Rightarrow> Inr (EXEC_ON_COORDS, False)
                 | Inr False \<Rightarrow> Inr (EXEC_ON_ALL_NODES, False)))
      | OBJECT_MATVIEW \<Rightarrow> Inr (EXEC_ON_COORDS, False)
      | _ \<Rightarrow> Inr (EXEC_ON_ALL_NODES, False))"

subsection \<open>DROP: pre-treatment and dispatch\<close>

text \<open>
  Modelled from the spec: \<^verbatim>\<open>makeRangeVarFromNameList\<close> belongs to the catalog namespace
  code and is not in this file, and the specification does not describe it. The model is
  its contract in the server: a list of one, two or three names (relation; schema and
  relation; database, schema and relation) makes a range variable, marked permanent, and
  any other list raises the syntax error "improper relation name (too many dotted names)".
\<close>

definition makeRangeVarFromNameList :: "string list \<Rightarrow> pg_error + RangeVar" where
  "makeRangeVarFromNameList nl =
     (if length nl = 1 \<or> length nl = 2 \<or> length nl = 3
      then Inr \<lparr> names = nl, relpersistence = RELPERSISTENCE_PERMANENT \<rparr>
      else Inl (SyntaxError ''improper relation name (too many dotted names)''))"

text \<open>
  The loop of \<^verbatim>\<open>DropStmtPreTreatment\<close> over the named objects, with its three
  variables \<open>is_first\<close>, \<open>res_is_temp\<close> and \<open>res_exec_type\<close>. Each round makes the
  range variable from the name list and looks it up before it tests anything.
\<close>

fun DropStmt_foreach ::
  "env \<Rightarrow> DropStmt \<Rightarrow> string list list \<Rightarrow> bool \<Rightarrow> bool \<Rightarrow> RemoteQueryExecType
     \<Rightarrow> pg_error + (bool \<times> RemoteQueryExecType)" where
  "DropStmt_foreach en st [] is_first res_is_temp res_exec_type =
     Inr (res_is_temp, res_exec_type)"
| "DropStmt_foreach en st (cell # cells) is_first res_is_temp res_exec_type =
     (case makeRangeVarFromNameList cell of
        Inl e \<Rightarrow> Inl e
      | Inr rel \<Rightarrow>
          (case RangeVarGetRelid en rel of
             Inl e \<Rightarrow> Inl e
           | Inr relid \<Rightarrow>
               if \<not> OidIsValid relid \<and> \<not> missing_ok st then Inl UndefinedObject
               else if \<not> OidIsValid relid \<and> missing_ok st then
                 DropStmt_foreach en st cells is_first res_is_temp res_exec_type
               else if is_first then
                 (case ExecUtilityFindNodes en (removeType st) relid of
                    Inl e \<Rightarrow> Inl e
                  | Inr (exec_type_first, is_temp_first) \<Rightarrow>
                      DropStmt_foreach en st cells False is_temp_first exec_type_first)
               else
                 (case ExecUtilityFindNodes en (removeType st) relid of
                    Inl e \<Rightarrow> Inl e
                  | Inr (exec_type_loc, is_temp_loc) \<Rightarrow>
                      if exec_type_loc \<noteq> res_exec_type \<or> is_temp_loc \<noteq> res_is_temp
                      then Inl (MixedPlacementError ''DROP'')
                      else DropStmt_foreach en st cells is_first res_is_temp res_exec_type)))"

text \<open>
  \<open>relation_objects\<close> are the kinds of the first arm of the switch;
  the result pair is what the function stores through \<^verbatim>\<open>is_temp\<close> and
  \<^verbatim>\<open>exec_type\<close>, whose incoming values are the last two arguments.
\<close>

definition DropStmtPreTreatment ::
  "env \<Rightarrow> DropStmt \<Rightarrow> string \<Rightarrow> bool \<Rightarrow> bool \<Rightarrow> RemoteQueryExecType
     \<Rightarrow> (bool \<times> RemoteQueryExecType) exec" where
  "DropStmtPreTreatment en st queryString sent is_temp_in exec_type_in =
     (if \<not> IsCoordMaster en then return (is_temp_in, exec_type_in)
      else if removeType st \<in> {OBJECT_TABLE, OBJECT_SEQUENCE, OBJECT_VIEW, OBJECT_INDEX} then
        lift (DropStmt_foreach en st (objects st) True False EXEC_ON_ALL_NODES)
      else if removeType st \<in> {OBJECT_RULE, OBJECT_TRIGGER} then
        (case objects st of
           [] \<Rightarrow> ereport NullDereference
         | objname # _ \<Rightarrow>
             seq (call en (get_object_address (removeType st) objname (missing_ok st)))
               (case object_relation en (removeType st) objname of
                  None \<Rightarrow> return (False, EXEC_ON_NONE)
                | Some rd_id \<Rightarrow>
                    bind (if OidIsValid rd_id
                          then lift (ExecUtilityFindNodes en (removeType st) rd_id)
                          else return (EXEC_ON_NONE, False))
                      (\<lambda>(res_exec_type, res_is_temp).
                         seq (emit (relation_close rd_id))
                           (return (res_is_temp, res_exec_type)))))
      else return (False, exec_type_in))"

definition ExecDropStmt :: "env \<Rightarrow> DropStmt \<Rightarrow> bool \<Rightarrow> string \<Rightarrow> bool \<Rightarrow> unit exec" where
  "ExecDropStmt en st isTopLevel queryString sent =
     (let utilityContext =
            \<lparr> sentToRemote = sent, ctx_force_autocommit = False, ctx_is_temp = False,
              ctx_exec_type = EXEC_ON_ALL_NODES, stmt = None, query = queryString,
              nodes = None \<rparr>
      in seq (emit HOLD_INTERRUPTS)
          (if removeType st = OBJECT_INDEX \<and> concurrent st then
             ereport (UnsupportedFeature ''PGXC does not support concurrent INDEX yet'')
           else if removeType st \<in> {OBJECT_INDEX, OBJECT_TABLE, OBJECT_SEQUENCE, OBJECT_VIEW,
                                     OBJECT_MATVIEW, OBJECT_FOREIGN_TABLE} then
             bind (DropStmtPreTreatment en st queryString sent False
                     (if removeType st = OBJECT_MATVIEW then EXEC_ON_COORDS
                      else EXEC_ON_ALL_NODES))
               (\<lambda>(is_temp_res, exec_type_res).
                  block [call en (RemoveRelations st),
                         if \<not> is_temp_res then
                           ExecRemoteUtilityStmt en
                             (utilityContext \<lparr> ctx_is_temp := is_temp_res,
                                               ctx_exec_type := exec_type_res,
                                               stmt := Some (T_DropStmt st) \<rparr>)
                         else skip,
                         emit RESUME_INTERRUPTS])
           else
             bind (DropStmtPreTreatment en st queryString sent False EXEC_ON_ALL_NODES)
               (\<lambda>(is_temp_res, exec_type_res).
                  block [call en (RemoveObjects st),
                         if \<not> is_temp_res then
                           ExecRemoteUtilityStmt en
                             (utilityContext \<lparr> ctx_exec_type := exec_type_res,
                                               ctx_is_temp := is_temp_res \<rparr>)
                         else skip,
                         emit RESUME_INTERRUPTS])))"

subsection \<open>Guard checks\<close>

text \<open>
  \<open>read_only_sensitive\<close> is the case list of \<^verbatim>\<open>check_xact_readonly\<close>, for the statement
  kinds of the model.
\<close>

fun read_only_sensitive :: "Node \<Rightarrow> bool" where
  "read_only_sensitive (T_TransactionStmt _) = False"
| "read_only_sensitive (T_RemoteQuery _) = False"
| "read_only_sensitive (T_VariableSetStmt _) = False"
| "read_only_sensitive _ = True"

definition PreventCommandIfReadOnly :: "env \<Rightarrow> Node \<Rightarrow> unit exec" where
  "PreventCommandIfReadOnly en parsetree =
     (if XactReadOnly en then ereport (ReadOnlyViolation parsetree) else skip)"

definition PreventCommandIfParallelMode :: "env \<Rightarrow> Node \<Rightarrow> unit exec" where
  "PreventCommandIfParallelMode en parsetree =
     (if IsInParallelMode en then ereport (ParallelModeViolation parsetree) else skip)"

definition PreventCommandDuringRecovery :: "env \<Rightarrow> string \<Rightarrow> unit exec" where
  "PreventCommandDuringRecovery en cmdname =
     (if RecoveryInProgress en then ereport (RecoveryModeViolation cmdname) else skip)"

definition check_xact_readonly :: "env \<Rightarrow> Node \<Rightarrow> unit exec" where
  "check_xact_readonly en parsetree =
     (if \<not> XactReadOnly en \<and> \<not> IsInParallelMode en then skip
      else if read_only_sensitive parsetree then
        seq (PreventCommandIfReadOnly en parsetree) (PreventCommandIfParallelMode en parsetree)
      else skip)"

fun IsStmtAllowedInLockedMode :: "Node \<Rightarrow> bool" where
  "IsStmtAllowedInLockedMode (T_CreateStmt st _ _) =
     (relpersistence (relation st) = RELPERSISTENCE_TEMP)"
| "IsStmtAllowedInLockedMode (T_TransactionStmt _) = True"
| "IsStmtAllowedInLockedMode (T_RemoteQuery _) = True"
| "IsStmtAllowedInLockedMode (T_TruncateStmt _) = True"
| "IsStmtAllowedInLockedMode (T_VariableSetStmt _) = True"
| "IsStmtAllowedInLockedMode _ = False"

text \<open>
  Modelled from the spec: \<^verbatim>\<open>RequireTransactionChain\<close> belongs to the transaction manager
  and is not in this file. The specification says that SAVEPOINT, RELEASE and ROLLBACK TO
  require an open transaction block and fail otherwise with
  \<open>NoActiveTransactionBlock\<close>.
\<close>

definition RequireTransactionChain :: "env \<Rightarrow> bool \<Rightarrow> string \<Rightarrow> unit exec" where
  "RequireTransactionChain en isTopLevel stmtType =
     (if IsTransactionBlock en then skip else ereport (NoActiveTransactionBlock stmtType))"

subsection \<open>The transaction statement arm of \<open>standard_ProcessUtility\<close>\<close>

text \<open>
  The completion tag is \<open>None\<close> for a null buffer and \<open>Some\<close> of the buffer's text
  otherwise; \<open>strcpy_tag\<close> is \<^verbatim>\<open>if (completionTag) strcpy(completionTag, s)\<close>.
\<close>

definition strcpy_tag :: "string option \<Rightarrow> string \<Rightarrow> string option" where
  "strcpy_tag completionTag s = map_option (\<lambda>_. s) completionTag"

definition begin_option :: "env \<Rightarrow> DefElem \<Rightarrow> unit exec" where
  "begin_option en item =
     (if fst item = ''transaction_isolation'' then
        call en (SetPGVariable ''transaction_isolation'' (snd item))
      else if fst item = ''transaction_read_only'' then
        call en (SetPGVariable ''transaction_read_only'' (snd item))
      else if fst item = ''transaction_deferrable'' then
        call en (SetPGVariable ''transaction_deferrable'' (snd item))
      else skip)"

text \<open>The loop over the options of SAVEPOINT: the last \<open>savepoint_name\<close> wins.\<close>

fun savepoint_name :: "DefElem list \<Rightarrow> string option \<Rightarrow> string option" where
  "savepoint_name [] name = name"
| "savepoint_name (elem # rest) name =
     savepoint_name rest (if fst elem = ''savepoint_name'' then Some (snd elem) else name)"

definition TransactionStmt_arm ::
  "env \<Rightarrow> TransactionStmt \<Rightarrow> bool \<Rightarrow> string option \<Rightarrow> string option exec" where
  "TransactionStmt_arm en st isTopLevel completionTag =
     (case kind st of
        TRANS_STMT_BEGIN \<Rightarrow>
          seq (call en BeginTransactionBlock)
            (seq (block (map (begin_option en) (options st))) (return completionTag))
      | TRANS_STMT_START \<Rightarrow>
          seq (call en BeginTransactionBlock)
            (seq (block (map (begin_option en) (options st))) (return completionTag))
      | TRANS_STMT_COMMIT \<Rightarrow>
          seq (call en EndTransactionBlock)
            (if \<not> EndTransactionBlock_result en
             then return (strcpy_tag completionTag ''ROLLBACK'')
             else return completionTag)
      | TRANS_STMT_PREPARE \<Rightarrow>
          seq (PreventCommandDuringRecovery en ''PREPARE TRANSACTION'')
            (seq (call en (PrepareTransactionBlock (gid st)))
               (if \<not> PrepareTransactionBlock_result en (gid st)
                then return (strcpy_tag completionTag ''ROLLBACK'')
                else return completionTag))
      | TRANS_STMT_COMMIT_PREPARED \<Rightarrow>
          seq (block [call en (PreventTransactionChain isTopLevel ''COMMIT PREPARED''),
                      PreventCommandDuringRecovery en ''COMMIT PREPARED'',
                      emit SetCurrentXactPhase2,
                      call en (FinishPreparedTransactionExt (gid st) True (xact_missing_ok st)),
                      emit SetCurrentXactPhase1])
            (return completionTag)
      | TRANS_STMT_ROLLBACK_PREPARED \<Rightarrow>
          seq (block [call en (PreventTransactionChain isTopLevel ''ROLLBACK PREPARED''),
                      PreventCommandDuringRecovery en ''ROLLBACK PREPARED'',
                      emit SetCurrentXactPhase2,
                      call en (FinishPreparedTransactionExt (gid st) False (xact_missing_ok st)),
                      emit SetCurrentXactPhase1])
            (return completionTag)
      | TRANS_STMT_ROLLBACK \<Rightarrow>
          seq (call en UserAbortTransactionBlock) (return completionTag)
      | TRANS_STMT_SAVEPOINT \<Rightarrow>
          seq (block [ereport (StatementTooComplex ''SAVEPOINT is not yet supported.''),
                      RequireTransactionChain en isTopLevel ''SAVEPOINT'',
                      call en (DefineSavepoint (savepoint_name (options st) None))])
            (return completionTag)
      | TRANS_STMT_RELEASE \<Rightarrow>
          seq (block [RequireTransactionChain en isTopLevel ''RELEASE SAVEPOINT'',
                      call en (ReleaseSavepoint (options st))])
            (return completionTag)
      | TRANS_STMT_ROLLBACK_TO \<Rightarrow>
          seq (block [RequireTransactionChain en isTopLevel ''ROLLBACK TO SAVEPOINT'',
                      call en (RollbackToSavepoint (options st))])
            (return completionTag))"

subsection \<open>The arms of \<open>ProcessUtilitySlow\<close> that do not recurse\<close>

text \<open>
  Each arm answers \<open>commandCollected\<close>. \<open>initial_context\<close> is the
  \<^verbatim>\<open>utilityContext\<close> every entry point builds from its arguments.
\<close>

definition initial_context :: "bool \<Rightarrow> string \<Rightarrow> RemoteUtilityContext" where
  "initial_context sent queryString =
     \<lparr> sentToRemote = sent, ctx_force_autocommit = False, ctx_is_temp = False,
       ctx_exec_type = EXEC_ON_ALL_NODES, stmt = None, query = queryString, nodes = None \<rparr>"

definition IndexStmt_arm ::
  "env \<Rightarrow> IndexStmt \<Rightarrow> string \<Rightarrow> bool \<Rightarrow> bool \<Rightarrow> bool exec" where
  "IndexStmt_arm en st queryString isTopLevel sent =
     (if idx_concurrent st then
        ereport (UnsupportedFeature ''PGXC does not support concurrent INDEX yet'')
      else
        bind (bind (lift (RangeVarGetRelid en (idx_relation st)))
                (\<lambda>relid.
                   if OidIsValid relid then lift (ExecUtilityFindNodes en OBJECT_INDEX relid)
                   else return (EXEC_ON_NONE, False)))
          (\<lambda>(exec_type_res, is_temp_res).
             seq (block [if idx_concurrent st
                         then call en (PreventTransactionChain isTopLevel
                                         ''CREATE INDEX CONCURRENTLY'')
                         else skip,
                         call en (RangeVarGetRelidExtended (idx_relation st)),
                         call en (transformIndexStmt st),
                         call en (EventTriggerAlterTableStart (T_IndexStmt st)),
                         call en (DefineIndex st),
                         call en (EventTriggerCollectSimpleCommand (T_IndexStmt st)),
                         call en EventTriggerAlterTableEnd,
                         if \<not> isconstraint st \<and> \<not> is_temp_res then
                           ExecRemoteUtilityStmt en
                             ((initial_context sent queryString)
                                \<lparr> ctx_force_autocommit := idx_concurrent st,
                                  ctx_exec_type := exec_type_res,
                                  ctx_is_temp := is_temp_res,
                                  stmt := Some (T_IndexStmt st) \<rparr>)
                         else skip])
               (return True)))"

definition CreateSeqStmt_arm :: "env \<Rightarrow> CreateSeqStmt \<Rightarrow> string \<Rightarrow> bool \<Rightarrow> bool exec" where
  "CreateSeqStmt_arm en st queryString sent =
     seq (block [call en (DefineSequence st),
                 if IS_PGXC_COORDINATOR en \<and> \<not> is_serial st \<and>
                    relpersistence (sequence st) \<noteq> RELPERSISTENCE_TEMP
                 then ExecRemoteUtilityStmt en
                        ((initial_context sent queryString)
                           \<lparr> ctx_is_temp := False, stmt := Some (T_CreateSeqStmt st) \<rparr>)
                 else skip])
       (return False)"

definition AlterSeqStmt_arm :: "env \<Rightarrow> AlterSeqStmt \<Rightarrow> string \<Rightarrow> bool \<Rightarrow> bool exec" where
  "AlterSeqStmt_arm en st queryString sent =
     seq (call en (AlterSequence st))
       (if IS_PGXC_COORDINATOR en \<and> \<not> alt_is_serial st then
          bind (lift (RangeVarGetRelid en (alt_sequence st)))
            (\<lambda>relid.
               if \<not> OidIsValid relid then return False
               else
                 (case ExecUtilityFindNodes en OBJECT_SEQUENCE relid of
                    Inl e \<Rightarrow> ereport e
                  | Inr (exec_type_res, is_temp_res) \<Rightarrow>
                      seq (if \<not> is_temp_res then
                             ExecRemoteUtilityStmt en
                               ((initial_context sent queryString)
                                  \<lparr> ctx_exec_type := exec_type_res, ctx_is_temp := is_temp_res \<rparr>)
                           else skip)
                        (return False)))
        else return False)"

definition CreateDomainStmt_arm :: "env \<Rightarrow> string \<Rightarrow> string \<Rightarrow> bool \<Rightarrow> bool exec" where
  "CreateDomainStmt_arm en domainname queryString sent =
     seq (block [call en (DefineDomain domainname),
                 ExecRemoteUtilityStmt en (initial_context sent queryString)])
       (return False)"

text \<open>
  The two arms for materialized views. The data of a view that is populated is sent by
  \<^verbatim>\<open>pgxc_send_matview_data\<close>, unless the statement came from another coordinator;
  otherwise the statement goes to the dispatcher, for the coordinators. CREATE
  MATERIALIZED VIEW sends only when \<^verbatim>\<open>ExecCreateTableAs\<close> answered a valid address.
\<close>

definition CreateTableAsStmt_arm ::
  "env \<Rightarrow> CreateTableAsStmt \<Rightarrow> string \<Rightarrow> bool \<Rightarrow> bool exec" where
  "CreateTableAsStmt_arm en st queryString sent =
     seq (block [call en (ExecCreateTableAs st),
                 if ExecCreateTableAs_valid en st then
                   (if \<not> into_skipData st \<and> \<not> IsConnFromCoord en then
                      call en (pgxc_send_matview_data (into_rel st) queryString)
                    else
                      ExecRemoteUtilityStmt en
                        ((initial_context sent queryString) \<lparr> ctx_exec_type := EXEC_ON_COORDS \<rparr>))
                 else skip])
       (return False)"

definition RefreshMatViewStmt_arm ::
  "env \<Rightarrow> RefreshMatViewStmt \<Rightarrow> string \<Rightarrow> bool \<Rightarrow> bool exec" where
  "RefreshMatViewStmt_arm en st queryString sent =
     seq (block [emit EventTriggerInhibitCommandCollection,
                 PG_TRY (call en (ExecRefreshMatView st))
                   (emit EventTriggerUndoInhibitCommandCollection),
                 emit EventTriggerUndoInhibitCommandCollection,
                 if \<not> ref_skipData st \<and> \<not> IsConnFromCoord en then
                   call en (pgxc_send_matview_data (ref_relation st) queryString)
                 else
                   ExecRemoteUtilityStmt en
                     ((initial_context sent queryString) \<lparr> ctx_exec_type := EXEC_ON_COORDS \<rparr>)])
       (return False)"

subsection \<open>Arms of \<open>standard_ProcessUtility\<close> that send without the dispatcher\<close>

text \<open>
  SET is handed to the pooler on the coordinator master, unless it sets \<open>grammar\<close> or is
  a SET LOCAL outside a transaction block; a negative answer of the pooler is an error.
  TRUNCATE is launched to the other nodes inside \<^verbatim>\<open>ExecuteTruncate\<close>, which gets the
  query string for that. Neither arm reads \<^verbatim>\<open>sentToRemote\<close>.
\<close>

definition PoolManagerSetCommand_checked :: "env \<Rightarrow> PoolCommandType \<Rightarrow> string \<Rightarrow> unit exec" where
  "PoolManagerSetCommand_checked en command_type queryString =
     seq (call en (PoolManagerSetCommand command_type queryString))
       (if PoolManagerSetCommand_result en command_type queryString < 0
        then ereport (InternalError ''Postgres-XC: ERROR SET query'') else skip)"

definition VariableSetStmt_arm :: "env \<Rightarrow> VariableSetStmt \<Rightarrow> bool \<Rightarrow> string \<Rightarrow> unit exec" where
  "VariableSetStmt_arm en st isTopLevel queryString =
     seq (call en (ExecSetVariableStmt st isTopLevel))
       (if IsCoordMaster en then
          (if var_name st = Some ''grammar'' then skip
           else if is_local st then
             (if IsTransactionBlock en
              then PoolManagerSetCommand_checked en POOL_CMD_LOCAL_SET queryString
              else skip)
           else PoolManagerSetCommand_checked en POOL_CMD_GLOBAL_SET queryString)
        else skip)"

subsection \<open>CREATE TABLE and ALTER TABLE before their loops\<close>

text \<open>
  The scan of the CREATE TABLE sub-statements on the coordinator master, with its
  variables \<open>is_first\<close> and \<open>is_temp\<close>; it answers the final \<open>is_temp\<close>.
\<close>

fun CreateStmt_scan :: "Node list \<Rightarrow> bool \<Rightarrow> bool \<Rightarrow> pg_error + bool" where
  "CreateStmt_scan [] is_first is_temp_acc = Inr is_temp_acc"
| "CreateStmt_scan (T_CreateStmt stmt_loc _ _ # rest) is_first is_temp_acc =
     (let is_object_temp = (relpersistence (relation stmt_loc) = RELPERSISTENCE_TEMP)
      in if is_object_temp \<and> distributeby stmt_loc then
           Inl (SyntaxError ''temporary table not support distribute by'')
         else if is_first then
           CreateStmt_scan rest False (if is_object_temp then True else is_temp_acc)
         else if is_object_temp \<noteq> is_temp_acc then Inl (MixedPlacementError ''CREATE'')
         else CreateStmt_scan rest is_first is_temp_acc)"
| "CreateStmt_scan (T_CreateForeignTableStmt _ _ _ # rest) is_first is_temp_acc =
     (if is_first then CreateStmt_scan rest False is_temp_acc
      else if \<not> is_temp_acc then Inl (MixedPlacementError ''CREATE'')
      else CreateStmt_scan rest is_first is_temp_acc)"
| "CreateStmt_scan (_ # rest) is_first is_temp_acc = CreateStmt_scan rest is_first is_temp_acc"

text \<open>
  Modelled from the spec: \<^verbatim>\<open>AddRemoteParseTree\<close> belongs to parse analysis and is not in
  this file. The specification says that it injects a remote-execution sub-statement,
  made from the same parse tree, into the expansion list; the model puts it last.
\<close>

definition AddRemoteParseTree ::
  "env \<Rightarrow> Node list \<Rightarrow> string \<Rightarrow> Node \<Rightarrow> RemoteQueryExecType \<Rightarrow> bool \<Rightarrow> Node list" where
  "AddRemoteParseTree en stmts queryString parsetree remoteExecType is_temp_arg =
     stmts @ [T_RemoteQuery
                \<lparr> sql_node = Some (saveNode en parsetree), exec_nodes = None,
                  sql_statement = queryString, force_autocommit = False,
                  exec_type = remoteExecType, is_temp = is_temp_arg \<rparr>]"

text \<open>
  The list the CREATE TABLE loop runs over: the sub-statements of parse analysis,
  scanned on the coordinator master, with the remote sub-statement added when the statement
  is neither sent to remote already nor temporary.
\<close>

definition CreateStmt_stmts ::
  "env \<Rightarrow> Node \<Rightarrow> Node list \<Rightarrow> Node option \<Rightarrow> string \<Rightarrow> bool \<Rightarrow> pg_error + Node list" where
  "CreateStmt_stmts en parsetree stmts transformed_stmt queryString sent =
     (case (if IsCoordMaster en then CreateStmt_scan stmts True False else Inr False) of
        Inl e \<Rightarrow> Inl e
      | Inr is_temp_res \<Rightarrow>
          if \<not> sent \<and> \<not> is_temp_res then
            (case transformed_stmt of
               Some t \<Rightarrow> Inr (AddRemoteParseTree en stmts queryString t
                               EXEC_ON_ALL_NODES is_temp_res)
             | None \<Rightarrow> Inr (AddRemoteParseTree en stmts queryString parsetree
                              EXEC_ON_ALL_NODES is_temp_res))
          else Inr stmts)"

fun IsAlterTableStmtRedistribution_cmds :: "AlterTableType list \<Rightarrow> bool" where
  "IsAlterTableStmtRedistribution_cmds [] = True"
| "IsAlterTableStmtRedistribution_cmds (cmd # rest) =
     (case cmd of
        AT_SubCluster \<Rightarrow> IsAlterTableStmtRedistribution_cmds rest
      | AT_AddNodeList \<Rightarrow> IsAlterTableStmtRedistribution_cmds rest
      | AT_DeleteNodeList \<Rightarrow> IsAlterTableStmtRedistribution_cmds rest
      | _ \<Rightarrow> False)"

definition IsAlterTableStmtRedistribution :: "AlterTableStmt \<Rightarrow> bool" where
  "IsAlterTableStmtRedistribution atstmt = IsAlterTableStmtRedistribution_cmds (cmds atstmt)"

definition AlterTable_stmts ::
  "env \<Rightarrow> Node \<Rightarrow> AlterTableStmt \<Rightarrow> Node list \<Rightarrow> string \<Rightarrow> bool \<Rightarrow> pg_error + Node list" where
  "AlterTable_stmts en parsetree atstmt stmts queryString sent =
     (if \<not> sent then
        (case RangeVarGetRelid en (at_relation atstmt) of
           Inl e \<Rightarrow> Inl e
         | Inr relid \<Rightarrow>
             if OidIsValid relid then
               (case ExecUtilityFindNodes en (at_relkind atstmt) relid of
                  Inl e \<Rightarrow> Inl e
                | Inr (exec_type_res, is_temp_res) \<Rightarrow>
                    if \<not> is_temp_res then
                      Inr (AddRemoteParseTree en stmts queryString parsetree
                             (if at_relkind atstmt = OBJECT_TABLE \<and>
                                 IsAlterTableStmtRedistribution atstmt
                              then EXEC_ON_COORDS else exec_type_res)
                             is_temp_res)
                    else Inr stmts)
             else Inr stmts)
      else Inr stmts)"

subsection \<open>The dispatch: \<open>ProcessUtility\<close>, \<open>standard_ProcessUtility\<close>, \<open>ProcessUtilitySlow\<close>\<close>

text \<open>
  The depth of nesting of compound statements; a remote sub-statement added to a list
  does not deepen it. It is the measure of the recursion below.
\<close>

fun depth :: "Node \<Rightarrow> nat" and depth_list :: "Node list \<Rightarrow> nat" where
  "depth (T_CreateStmt _ stmts _) = Suc (depth_list stmts)"
| "depth (T_CreateForeignTableStmt _ stmts _) = Suc (depth_list stmts)"
| "depth (T_AlterTableStmt _ stmts) = Suc (depth_list stmts)"
| "depth (T_TransactionStmt _) = 0"
| "depth (T_RemoteQuery _) = 0"
| "depth (T_IndexStmt _) = 0"
| "depth (T_CreateSeqStmt _) = 0"
| "depth (T_AlterSeqStmt _) = 0"
| "depth (T_DropStmt _) = 0"
| "depth (T_CreateDomainStmt _) = 0"
| "depth (T_GrantRoleStmt _) = 0"
| "depth (T_TruncateStmt _) = 0"
| "depth (T_VariableSetStmt _) = 0"
| "depth (T_CreateTableAsStmt _) = 0"
| "depth (T_RefreshMatViewStmt _) = 0"
| "depth_list [] = 0"
| "depth_list (n # ns) = max (depth n) (depth_list ns)"

text \<open>
  The three functions of the file and the two loops over sub-statements, as they call
  each other. \<open>ProcessUtilitySlow_switch\<close> is the switch inside the \<^verbatim>\<open>PG_TRY\<close> block of
  \<^verbatim>\<open>ProcessUtilitySlow\<close>; it answers \<open>commandCollected\<close>. The parameters \<^verbatim>\<open>params\<close> and
  \<^verbatim>\<open>dest\<close> only travel to collaborators and are left out. The functions answer the
  completion tag they leave in the caller's buffer.
\<close>

definition isCompleteQuery :: "ProcessUtilityContext \<Rightarrow> bool" where
  "isCompleteQuery context = (context_rank context \<le> context_rank PROCESS_UTILITY_QUERY)"

function
  ProcessUtility ::
    "env \<Rightarrow> Node \<Rightarrow> string \<Rightarrow> ProcessUtilityContext \<Rightarrow> bool \<Rightarrow> string option
       \<Rightarrow> string option exec"
  and standard_ProcessUtility ::
    "env \<Rightarrow> Node \<Rightarrow> string \<Rightarrow> ProcessUtilityContext \<Rightarrow> bool \<Rightarrow> string option
       \<Rightarrow> string option exec"
  and ProcessUtilitySlow ::
    "env \<Rightarrow> Node \<Rightarrow> string \<Rightarrow> ProcessUtilityContext \<Rightarrow> bool \<Rightarrow> string option \<Rightarrow> unit exec"
  and ProcessUtilitySlow_switch ::
    "env \<Rightarrow> Node \<Rightarrow> string \<Rightarrow> ProcessUtilityContext \<Rightarrow> bool \<Rightarrow> bool exec"
  and CreateStmt_foreach :: "env \<Rightarrow> string \<Rightarrow> Node list \<Rightarrow> unit exec"
  and AlterTable_foreach :: "env \<Rightarrow> string \<Rightarrow> Node \<Rightarrow> Oid \<Rightarrow> Node list \<Rightarrow> unit exec"
where
  "ProcessUtility en parsetree queryString context sent completionTag =
     seq (emit (Enter_ProcessUtility parsetree context sent))
       (if ProcessUtility_hook en then
          seq (call en (ProcessUtility_hook_call parsetree context sent)) (return completionTag)
        else standard_ProcessUtility en parsetree queryString context sent completionTag)"
| "standard_ProcessUtility en parsetree queryString context sent completionTag =
     seq (block [if IsCoordMaster en \<and> IsNormalProcessingMode en \<and>
                    \<not> IsStmtAllowedInLockedMode parsetree
                 then call en (pgxc_lock_for_utility_stmt parsetree) else skip,
                 check_xact_readonly en parsetree])
       (case parsetree of
          T_TransactionStmt st \<Rightarrow>
            TransactionStmt_arm en st (context = PROCESS_UTILITY_TOPLEVEL)
              (strcpy_tag completionTag [])
        | T_TruncateStmt st \<Rightarrow>
            seq (call en (ExecuteTruncate st queryString))
              (return (strcpy_tag completionTag []))
        | T_GrantRoleStmt rolename \<Rightarrow>
            seq (block [call en (GrantRole rolename),
                        ExecRemoteUtilityStmt en (initial_context sent queryString)])
              (return (strcpy_tag completionTag []))
        | T_VariableSetStmt st \<Rightarrow>
            seq (VariableSetStmt_arm en st (context = PROCESS_UTILITY_TOPLEVEL) queryString)
              (return (strcpy_tag completionTag []))
        | T_DropStmt st \<Rightarrow>
            seq (if EventTriggerSupportsObjectType en (removeType st) then
                   ProcessUtilitySlow en parsetree queryString context sent
                     (strcpy_tag completionTag [])
                 else ExecDropStmt en st (context = PROCESS_UTILITY_TOPLEVEL) queryString sent)
              (return (strcpy_tag completionTag []))
        | T_RemoteQuery step \<Rightarrow>
            seq (if \<not> IsConnFromCoord en then call en (ExecInterXactUtility step) else skip)
              (return (strcpy_tag completionTag []))
        | _ \<Rightarrow>
            seq (ProcessUtilitySlow en parsetree queryString context sent
                   (strcpy_tag completionTag []))
              (return (strcpy_tag completionTag [])))"
| "ProcessUtilitySlow en parsetree queryString context sent completionTag =
     bind (if isCompleteQuery context
           then seq (emit EventTriggerBeginCompleteQuery) (return (BeginCompleteQuery_result en))
           else return False)
       (\<lambda>needCleanup.
          seq (PG_TRY
                 (seq (if isCompleteQuery context
                       then call en (EventTriggerDDLCommandStart parsetree) else skip)
                    (bind (ProcessUtilitySlow_switch en parsetree queryString context sent)
                       (\<lambda>commandCollected.
                          block [if \<not> commandCollected
                                 then call en (EventTriggerCollectSimpleCommand parsetree)
                                 else skip,
                                 if isCompleteQuery context
                                 then block [call en (EventTriggerSQLDrop parsetree),
                                             call en (EventTriggerDDLCommandEnd parsetree)]
                                 else skip])))
                 (if needCleanup then emit EventTriggerEndCompleteQuery else skip))
            (if needCleanup then emit EventTriggerEndCompleteQuery else skip))"
| "ProcessUtilitySlow_switch en parsetree queryString context sent =
     (case parsetree of
        T_CreateStmt _ stmts transformed_stmt \<Rightarrow>
          (case CreateStmt_stmts en parsetree stmts transformed_stmt queryString sent of
             Inl e \<Rightarrow> ereport e
           | Inr stmts' \<Rightarrow> seq (CreateStmt_foreach en queryString stmts') (return True))
      | T_CreateForeignTableStmt _ stmts transformed_stmt \<Rightarrow>
          (case CreateStmt_stmts en parsetree stmts transformed_stmt queryString sent of
             Inl e \<Rightarrow> ereport e
           | Inr stmts' \<Rightarrow> seq (CreateStmt_foreach en queryString stmts') (return True))
      | T_AlterTableStmt atstmt stmts \<Rightarrow>
          seq (call en (AlterTableLookupRelation atstmt))
            (if OidIsValid (AlterTableLookupRelation_result en atstmt) then
               (case AlterTable_stmts en parsetree atstmt stmts queryString sent of
                  Inl e \<Rightarrow> ereport e
                | Inr stmts' \<Rightarrow>
                    seq (block
                           [call en (EventTriggerAlterTableStart parsetree),
                            call en (EventTriggerAlterTableRelid
                                       (AlterTableLookupRelation_result en atstmt)),
                            AlterTable_foreach en queryString parsetree
                              (AlterTableLookupRelation_result en atstmt) stmts',
                            call en EventTriggerAlterTableEnd])
                      (return True))
             else return True)
      | T_IndexStmt st \<Rightarrow>
          IndexStmt_arm en st queryString (context = PROCESS_UTILITY_TOPLEVEL) sent
      | T_CreateSeqStmt st \<Rightarrow> CreateSeqStmt_arm en st queryString sent
      | T_AlterSeqStmt st \<Rightarrow> AlterSeqStmt_arm en st queryString sent
      | T_CreateTableAsStmt st \<Rightarrow> CreateTableAsStmt_arm en st queryString sent
      | T_RefreshMatViewStmt st \<Rightarrow> RefreshMatViewStmt_arm en st queryString sent
      | T_DropStmt st \<Rightarrow>
          seq (ExecDropStmt en st (context = PROCESS_UTILITY_TOPLEVEL) queryString sent)
            (return True)
      | T_CreateDomainStmt domainname \<Rightarrow>
          CreateDomainStmt_arm en domainname queryString sent
      | _ \<Rightarrow> ereport UnrecognizedStatementKind)"
| "CreateStmt_foreach en queryString [] = skip"
| "CreateStmt_foreach en queryString (st # rest) =
     seq (case st of
            T_CreateStmt cs _ _ \<Rightarrow>
              block [call en (DefineRelation cs RELKIND_RELATION),
                     call en (EventTriggerCollectSimpleCommand st),
                     emit CommandCounterIncrement,
                     call en (transformRelOptions cs),
                     call en (heap_reloptions cs),
                     call en (NewRelationCreateToastTable cs)]
          | T_CreateForeignTableStmt cs _ _ \<Rightarrow>
              block [call en (DefineRelation cs RELKIND_FOREIGN_TABLE),
                     call en (CreateForeignTable cs),
                     call en (EventTriggerCollectSimpleCommand st)]
          | _ \<Rightarrow>
              discard (ProcessUtility en st queryString PROCESS_UTILITY_SUBCOMMAND True None))
       (seq (if rest \<noteq> [] then emit CommandCounterIncrement else skip)
          (CreateStmt_foreach en queryString rest))"
| "AlterTable_foreach en queryString parsetree relid [] = skip"
| "AlterTable_foreach en queryString parsetree relid (st # rest) =
     seq (case st of
            T_AlterTableStmt atstmt _ \<Rightarrow> call en (AlterTable relid atstmt)
          | _ \<Rightarrow>
              block [call en EventTriggerAlterTableEnd,
                     discard (ProcessUtility en st queryString PROCESS_UTILITY_SUBCOMMAND
                                True None),
                     call en (EventTriggerAlterTableStart parsetree),
                     call en (EventTriggerAlterTableRelid relid)])
       (seq (if rest \<noteq> [] then emit CommandCounterIncrement else skip)
          (AlterTable_foreach en queryString parsetree relid rest))"
  by pat_completeness auto

termination
proof -
  have add: "depth_list (AddRemoteParseTree en stmts q p x t) = depth_list stmts"
    for en stmts q p x t
    by (induction stmts) (simp_all add: AddRemoteParseTree_def)
  have create: "depth_list l = depth_list stmts"
    if "CreateStmt_stmts en p stmts tr q sent = Inr l" for en p stmts tr q sent l
    using that
    by (auto simp: CreateStmt_stmts_def add split: sum.splits if_splits option.splits)
  have alter: "depth_list l = depth_list stmts"
    if "AlterTable_stmts en p a stmts q sent = Inr l" for en p a stmts q sent l
    using that
    by (auto simp: AlterTable_stmts_def Let_def add split: sum.splits if_splits prod.splits)
  show ?thesis
    apply (relation "measures
       [\<lambda>x. case x of
            Inl (Inl (en, n, r)) \<Rightarrow> depth n
          | Inl (Inr (Inl (en, n, r))) \<Rightarrow> depth n
          | Inl (Inr (Inr (en, n, r))) \<Rightarrow> depth n
          | Inr (Inl (en, n, r)) \<Rightarrow> depth n
          | Inr (Inr (Inl (en, q, ns))) \<Rightarrow> depth_list ns
          | Inr (Inr (Inr (en, q, p, relid, ns))) \<Rightarrow> depth_list ns,
        \<lambda>x. case x of
            Inl (Inl _) \<Rightarrow> 4
          | Inl (Inr (Inl _)) \<Rightarrow> 3
          | Inl (Inr (Inr _)) \<Rightarrow> 2
          | Inr (Inl _) \<Rightarrow> 1
          | Inr (Inr _) \<Rightarrow> 5,
        \<lambda>x. case x of
            Inr (Inr (Inl (en, q, ns))) \<Rightarrow> length ns
          | Inr (Inr (Inr (en, q, p, relid, ns))) \<Rightarrow> length ns
          | _ \<Rightarrow> 0]")
     apply (auto simp: create alter)
    done
qed

declare ProcessUtility.simps [simp del] standard_ProcessUtility.simps [simp del]
  ProcessUtilitySlow.simps [simp del] ProcessUtilitySlow_switch.simps [simp del]

text \<open>
  The body of the \<^verbatim>\<open>PG_TRY\<close> block of \<^verbatim>\<open>ProcessUtilitySlow\<close>, under a name of its own.
\<close>

definition slow_body ::
  "env \<Rightarrow> Node \<Rightarrow> string \<Rightarrow> ProcessUtilityContext \<Rightarrow> bool \<Rightarrow> unit exec" where
  "slow_body en n q ctx sent =
     seq (if isCompleteQuery ctx then call en (EventTriggerDDLCommandStart n) else skip)
        (bind (ProcessUtilitySlow_switch en n q ctx sent)
           (\<lambda>commandCollected.
              block [if \<not> commandCollected
                     then call en (EventTriggerCollectSimpleCommand n) else skip,
                     if isCompleteQuery ctx
                     then block [call en (EventTriggerSQLDrop n),
                                 call en (EventTriggerDDLCommandEnd n)]
                     else skip]))"

subsection \<open>Vocabulary of the log\<close>

text \<open>
  Classes of events: a call of the transport, the two calls that open and close a
  change-notification batch, an advance of the command counter, an entry into
  \<^verbatim>\<open>ProcessUtility\<close>, and an entry that is not a sub-command entry marked as sent to
  remote. A computation is quiet for a class when its log holds no event of the class.
\<close>

fun is_transport :: "event \<Rightarrow> bool" where
  "is_transport (ExecInterXactUtility _) = True"
| "is_transport _ = False"

fun is_batch :: "event \<Rightarrow> bool" where
  "is_batch EventTriggerBeginCompleteQuery = True"
| "is_batch EventTriggerEndCompleteQuery = True"
| "is_batch _ = False"

fun is_advance :: "event \<Rightarrow> bool" where
  "is_advance CommandCounterIncrement = True"
| "is_advance _ = False"

fun is_entry :: "event \<Rightarrow> bool" where
  "is_entry (Enter_ProcessUtility _ _ _) = True"
| "is_entry _ = False"

fun is_foreign_entry :: "event \<Rightarrow> bool" where
  "is_foreign_entry (Enter_ProcessUtility _ context sent) =
     (\<not> (context = PROCESS_UTILITY_SUBCOMMAND \<and> sent))"
| "is_foreign_entry _ = False"

definition quiet :: "(event \<Rightarrow> bool) \<Rightarrow> 'a exec \<Rightarrow> bool" where
  "quiet P m = (filter P (events m) = [])"

text \<open>The number of advances of the command counter in a log.\<close>

definition advances :: "event list \<Rightarrow> nat" where
  "advances evs = length (filter is_advance evs)"

text \<open>
  The advances one sub-statement of the CREATE TABLE loop makes by itself: one for a
  table (after the relation is defined, before its toast table), none for a foreign table,
  and for any other sub-statement those of its recursive processing.
\<close>

definition sub_advances :: "env \<Rightarrow> string \<Rightarrow> Node \<Rightarrow> nat" where
  "sub_advances en queryString st =
     (case st of
        T_CreateStmt _ _ _ \<Rightarrow> 1
      | T_CreateForeignTableStmt _ _ _ \<Rightarrow> 0
      | _ \<Rightarrow> advances (events (ProcessUtility en st queryString
                                  PROCESS_UTILITY_SUBCOMMAND True None)))"

text \<open>
  The remote-query steps of a statement tree: the statement itself when it is a
  \<open>T_RemoteQuery\<close> node, and those among the sub-statements of a compound statement.
  Parse analysis gives none; the orchestrator adds one to the list of a statement that is
  not yet sent to remote.
\<close>

fun remote_steps :: "Node \<Rightarrow> RemoteQuery set" where
  "remote_steps (T_RemoteQuery step) = {step}"
| "remote_steps (T_CreateStmt _ stmts _) = (\<Union>n \<in> set stmts. remote_steps n)"
| "remote_steps (T_CreateForeignTableStmt _ stmts _) = (\<Union>n \<in> set stmts. remote_steps n)"
| "remote_steps (T_AlterTableStmt _ stmts) = (\<Union>n \<in> set stmts. remote_steps n)"
| "remote_steps _ = {}"

text \<open>
  The statements that \<^verbatim>\<open>ProcessUtilitySlow\<close> expands into sub-statements, and the list
  its loop runs over (none for any other statement).
\<close>

fun compound :: "Node \<Rightarrow> bool" where
  "compound (T_CreateStmt _ _ _) = True"
| "compound (T_CreateForeignTableStmt _ _ _) = True"
| "compound (T_AlterTableStmt _ _) = True"
| "compound _ = False"

definition executed_list :: "env \<Rightarrow> Node \<Rightarrow> string \<Rightarrow> bool \<Rightarrow> pg_error + Node list" where
  "executed_list en parsetree queryString sent =
     (case parsetree of
        T_CreateStmt _ stmts transformed_stmt \<Rightarrow>
          CreateStmt_stmts en parsetree stmts transformed_stmt queryString sent
      | T_CreateForeignTableStmt _ stmts transformed_stmt \<Rightarrow>
          CreateStmt_stmts en parsetree stmts transformed_stmt queryString sent
      | T_AlterTableStmt atstmt stmts \<Rightarrow>
          AlterTable_stmts en parsetree atstmt stmts queryString sent
      | _ \<Rightarrow> Inr [])"

text \<open>
  A transport event that executes none of the steps \<open>S\<close>.
\<close>

definition stray_transport :: "RemoteQuery set \<Rightarrow> event \<Rightarrow> bool" where
  "stray_transport S ev = (is_transport ev \<and> (\<forall>step \<in> S. ev \<noteq> ExecInterXactUtility step))"

text \<open>
  The conditions under which the recursion is quiet for a class \<open>P\<close> of events:
  \<open>P\<close> holds only of transport, batch, advance and entry events; the dispatcher is
  quiet for the given \<open>sentToRemote\<close>; the sub-statement calls are quiet; no batch is
  opened; \<open>P\<close> holds of no remote-query step that is executed.
\<close>

definition control :: "(event \<Rightarrow> bool) \<Rightarrow> bool" where
  "control P = (\<forall>ev. P ev \<longrightarrow> is_transport ev \<or> is_batch ev \<or> is_advance ev \<or> is_entry ev)"

definition dispatcher_quiet :: "(event \<Rightarrow> bool) \<Rightarrow> env \<Rightarrow> bool \<Rightarrow> bool" where
  "dispatcher_quiet P en sent =
     (\<forall>c. sentToRemote c = sent \<longrightarrow> quiet P (ExecRemoteUtilityStmt en c))"

definition nested_quiet :: "(event \<Rightarrow> bool) \<Rightarrow> env \<Rightarrow> bool" where
  "nested_quiet P en =
     (control P \<and> dispatcher_quiet P en True \<and> \<not> P CommandCounterIncrement \<and>
      (\<forall>n. \<not> P (Enter_ProcessUtility n PROCESS_UTILITY_SUBCOMMAND True)))"

definition batch_free :: "(event \<Rightarrow> bool) \<Rightarrow> ProcessUtilityContext \<Rightarrow> bool" where
  "batch_free P context =
     (context = PROCESS_UTILITY_SUBCOMMAND \<or>
      (\<not> P EventTriggerBeginCompleteQuery \<and> \<not> P EventTriggerEndCompleteQuery))"

definition steps_quiet :: "(event \<Rightarrow> bool) \<Rightarrow> Node \<Rightarrow> bool" where
  "steps_quiet P n = (\<forall>step \<in> remote_steps n. \<not> P (ExecInterXactUtility step))"

definition statement_quiet :: "(event \<Rightarrow> bool) \<Rightarrow> env \<Rightarrow> Node \<Rightarrow> string \<Rightarrow> bool \<Rightarrow> bool" where
  "statement_quiet P en n q sent =
     (if compound n then
        (\<forall>b. executed_list en n q sent = Inr b \<longrightarrow> (\<forall>m \<in> set b. steps_quiet P m))
      else steps_quiet P n \<and> dispatcher_quiet P en sent)"

subsection \<open>Vocabulary of the drop properties, and an example cluster\<close>

text \<open>
  The lookup of one named object, as a round of the loop makes it: the range variable of
  the name list, then its identifier in the catalog.
\<close>

definition object_lookup :: "env \<Rightarrow> string list \<Rightarrow> pg_error + Oid" where
  "object_lookup en cell =
     (case makeRangeVarFromNameList cell of
        Inl e \<Rightarrow> Inl e
      | Inr rel \<Rightarrow> RangeVarGetRelid en rel)"

text \<open>
  A named object of a DROP statement resolves to a placement when the catalog knows it
  and the resolver answers for it. It is missing when the lookup answers no relation. It is
  admitted when a round of the loop on it alone raises nothing: the name is a relation name,
  the lookup answers, a missing object is tolerated and the resolver answers for a
  present one.
\<close>

definition resolves ::
  "env \<Rightarrow> DropStmt \<Rightarrow> string list \<Rightarrow> RemoteQueryExecType \<times> bool \<Rightarrow> bool" where
  "resolves en st cell p =
     (case object_lookup en cell of
        Inl e \<Rightarrow> False
      | Inr relid \<Rightarrow> OidIsValid relid \<and> ExecUtilityFindNodes en (removeType st) relid = Inr p)"

definition missing :: "env \<Rightarrow> string list \<Rightarrow> bool" where
  "missing en cell =
     (case object_lookup en cell of
        Inl e \<Rightarrow> False
      | Inr relid \<Rightarrow> \<not> OidIsValid relid)"


text \<open>
  A coordinator master with two data nodes, inside a transaction block, whose
  transaction manager refuses to commit. Its catalog: 1 is the temporary table
  \<open>tmp_t\<close>, 2 the table \<open>t\<close>, 3 the materialized view \<open>mv\<close>, 4 the index \<open>mv_idx\<close> on
  \<open>mv\<close>, 5 the index \<open>t_idx\<close> on \<open>t\<close>; a name of three parts is a reference into
  another database, which the lookup refuses. Event triggers support every object type but
  roles. No collaborator call raises.
\<close>

definition example_env :: env where
  "example_env =
     \<lparr> IsCoordMaster = True, IsConnFromCoord = False, IS_PGXC_COORDINATOR = True,
       NumDataNodes = 2, IsNormalProcessingMode = True, XactReadOnly = False,
       IsInParallelMode = False, RecoveryInProgress = False, IsTransactionBlock = True,
       ProcessUtility_hook = False, BeginCompleteQuery_result = True,
       EndTransactionBlock_result = False, PrepareTransactionBlock_result = (\<lambda>_. False),
       RangeVarGetRelid =
         (\<lambda>rv. if length (names rv) = 3 then Inl (UnsupportedFeature
                    ''cross-database references are not implemented'')
               else if names rv = [''tmp_t''] then Inr 1 else if names rv = [''t''] then Inr 2
               else if names rv = [''mv''] then Inr 3 else if names rv = [''mv_idx''] then Inr 4
               else if names rv = [''t_idx''] then Inr 5 else Inr InvalidOid),
       EventTriggerSupportsObjectType = (\<lambda>obtype. obtype \<noteq> OBJECT_ROLE),
       IsTempTable = (\<lambda>relid. relid = 1),
       get_rel_relkind =
         (\<lambda>relid. if relid = 1 \<or> relid = 2 then RELKIND_RELATION
                  else if relid = 3 then RELKIND_MATVIEW
                  else if relid = 4 \<or> relid = 5 then RELKIND_INDEX else RELKIND_none),
       IndexGetRelation =
         (\<lambda>relid. if relid = 4 then Some 3 else if relid = 5 then Some 2 else None),
       object_relation = (\<lambda>_ _. None),
       AlterTableLookupRelation_result = (\<lambda>_. 2),
       PoolManagerSetCommand_result = (\<lambda>_ _. 0),
       ExecCreateTableAs_valid = (\<lambda>_. True),
       saveNode = (\<lambda>_. ''node''),
       raises = (\<lambda>_. None) \<rparr>"

definition example_context :: RemoteUtilityContext where
  "example_context =
     \<lparr> sentToRemote = False, ctx_force_autocommit = False, ctx_is_temp = False,
       ctx_exec_type = EXEC_ON_ALL_NODES, stmt = None, query = ''CREATE DOMAIN d AS int'',
       nodes = None \<rparr>"


definition drop_missing :: DropStmt where
  "drop_missing = \<lparr> objects = [[''nosuch''], [''public'', ''gone'']], removeType = OBJECT_TABLE,
                    missing_ok = True, concurrent = False \<rparr>"


text \<open>
  \<open>failing_env\<close> is the example cluster with a \<^verbatim>\<open>DefineDomain\<close> that raises.
  The statements: SAVEPOINT sp1, COMMIT, PREPARE TRANSACTION 'gx1', and CREATE TABLE t
  whose parse analysis gives the table and an index (or the table alone).
\<close>

definition failing_env :: env where
  "failing_env =
     example_env \<lparr> raises := (\<lambda>ev. if ev = DefineDomain ''d'' then Some (CollaboratorError 1)
                                    else None) \<rparr>"

definition savepoint_stmt :: TransactionStmt where
  "savepoint_stmt = \<lparr> kind = TRANS_STMT_SAVEPOINT, options = [(''savepoint_name'', ''sp1'')],
                      gid = [], xact_missing_ok = False \<rparr>"

definition commit_stmt :: TransactionStmt where
  "commit_stmt = \<lparr> kind = TRANS_STMT_COMMIT, options = [], gid = [], xact_missing_ok = False \<rparr>"

definition prepare_stmt :: TransactionStmt where
  "prepare_stmt = \<lparr> kind = TRANS_STMT_PREPARE, options = [], gid = ''gx1'',
                    xact_missing_ok = False \<rparr>"

definition table_t :: CreateStmt where
  "table_t = \<lparr> relation = \<lparr> names = [''t''], relpersistence = RELPERSISTENCE_PERMANENT \<rparr>,
               distributeby = False \<rparr>"

definition create_index :: Node where
  "create_index =
     T_IndexStmt \<lparr> idx_relation = \<lparr> names = [''t''], relpersistence = RELPERSISTENCE_PERMANENT \<rparr>,
                   idx_concurrent = False, isconstraint = False \<rparr>"

definition create_table :: Node where
  "create_table = T_CreateStmt table_t [T_CreateStmt table_t [] None, create_index] None"

definition create_table_single :: Node where
  "create_table_single = T_CreateStmt table_t [T_CreateStmt table_t [] None] None"

text \<open>
  The remote-query step the orchestrator makes for \<open>create_table\<close> on the example cluster,
  and the statements SET search_path = s1, TRUNCATE t and REFRESH MATERIALIZED VIEW mv.
\<close>

definition create_table_step :: RemoteQuery where
  "create_table_step =
     \<lparr> sql_node = Some ''node'', exec_nodes = None,
       sql_statement = ''CREATE TABLE t (a int primary key)'', force_autocommit = False,
       exec_type = EXEC_ON_ALL_NODES, is_temp = False \<rparr>"

definition set_stmt :: VariableSetStmt where
  "set_stmt = \<lparr> var_name = Some ''search_path'', is_local = False \<rparr>"

definition truncate_stmt :: TruncateStmt where
  "truncate_stmt =
     \<lparr> relations = [\<lparr> names = [''t''], relpersistence = RELPERSISTENCE_PERMANENT \<rparr>],
       restart_seqs = False \<rparr>"

definition refresh_stmt :: RefreshMatViewStmt where
  "refresh_stmt =
     \<lparr> ref_relation = \<lparr> names = [''mv''], relpersistence = RELPERSISTENCE_PERMANENT \<rparr>,
       ref_skipData = False \<rparr>"

definition matview_stmt :: CreateTableAsStmt where
  "matview_stmt =
     \<lparr> into_rel = \<lparr> names = [''mv''], relpersistence = RELPERSISTENCE_PERMANENT \<rparr>,
       into_skipData = False \<rparr>"






section \<open>Properties\<close>

subsection \<open>Laws of the computations\<close>

lemma outcome_simps [simp]:
  "outcome (return v) = Inr v"
  "outcome skip = Inr ()"
  "outcome (ereport e) = Inl e"
  "outcome (emit ev) = Inr ()"
  "outcome (lift r) = r"
  "outcome (call en ev) = (case raises en ev of Some e \<Rightarrow> Inl e | None \<Rightarrow> Inr ())"
  by (simp_all add: outcome_def return_def skip_def ereport_def emit_def lift_def call_def)

lemma events_simps [simp]:
  "events (return v) = []"
  "events skip = []"
  "events (ereport e) = []"
  "events (emit ev) = [ev]"
  "events (lift r) = []"
  "events (call en ev) = [ev]"
  by (simp_all add: events_def return_def skip_def ereport_def emit_def lift_def call_def)

lemma outcome_bind:
  "outcome (bind m f) = (case outcome m of Inl e \<Rightarrow> Inl e | Inr v \<Rightarrow> outcome (f v))"
  by (simp add: outcome_def bind_def split: sum.splits)

lemma events_bind:
  "events (bind m f) = events m @ (case outcome m of Inl e \<Rightarrow> [] | Inr v \<Rightarrow> events (f v))"
  by (simp add: outcome_def events_def bind_def split: sum.splits)

lemma outcome_seq:
  "outcome (seq m k) = (case outcome m of Inl e \<Rightarrow> Inl e | Inr v \<Rightarrow> outcome k)"
  by (simp add: seq_def outcome_bind)

lemma events_seq:
  "events (seq m k) = events m @ (case outcome m of Inl e \<Rightarrow> [] | Inr v \<Rightarrow> events k)"
  by (simp add: seq_def events_bind)

lemma exec_eqI: "outcome m = outcome k \<Longrightarrow> events m = events k \<Longrightarrow> m = k"
  by (simp add: outcome_def events_def prod_eq_iff)

lemma bind_return: "bind (return v) f = f v"
  by (simp add: bind_def return_def)

lemma bind_ereport: "bind (ereport e) f = ereport e"
  by (simp add: bind_def ereport_def)

lemmas example_simps =
  example_env_def example_context_def object_lookup_def makeRangeVarFromNameList_def
  OidIsValid_def InvalidOid_def ExecUtilityFindNodes_def ExecUtilityFindNodesRelkind_def
  index_on_matview_def

subsection \<open>The remote dispatcher\<close>

text \<open>
  Claim C1. The dispatcher applies its short-circuits in this order: not the coordinator
  master, no-op; else target \<open>EXEC_ON_NONE\<close>, no-op; else already sent to remote,
  no-op; else no data node, failure with \<open>NoDataNodesConfigured\<close>; else exactly one call
  of the transport. A no-op is \<open>skip\<close>: no error and no call. In particular, on the
  master and for a statement not yet sent, zero data nodes and target
  \<open>EXEC_ON_ALL_NODES\<close> fail without any call, while zero data nodes and target
  \<open>EXEC_ON_NONE\<close> succeed without any call, whatever the rest of the request.
\<close>

theorem dispatch_short_circuit_order:
  "(\<not> IsCoordMaster en \<longrightarrow> ExecRemoteUtilityStmt en c = skip) \<and>
   (IsCoordMaster en \<and> ctx_exec_type c = EXEC_ON_NONE \<longrightarrow> ExecRemoteUtilityStmt en c = skip) \<and>
   (IsCoordMaster en \<and> ctx_exec_type c \<noteq> EXEC_ON_NONE \<and> sentToRemote c
      \<longrightarrow> ExecRemoteUtilityStmt en c = skip) \<and>
   (IsCoordMaster en \<and> ctx_exec_type c \<noteq> EXEC_ON_NONE \<and> \<not> sentToRemote c \<and> NumDataNodes en = 0
      \<longrightarrow> ExecRemoteUtilityStmt en c = ereport NoDataNodesConfigured) \<and>
   (IsCoordMaster en \<and> ctx_exec_type c \<noteq> EXEC_ON_NONE \<and> \<not> sentToRemote c \<and> NumDataNodes en \<noteq> 0
      \<longrightarrow> (\<exists>step. events (ExecRemoteUtilityStmt en c) = [ExecInterXactUtility step])) \<and>
   (IsCoordMaster en \<and> \<not> sentToRemote c \<and> NumDataNodes en = 0 \<and> ctx_exec_type c = EXEC_ON_ALL_NODES
      \<longrightarrow> outcome (ExecRemoteUtilityStmt en c) = Inl NoDataNodesConfigured
          \<and> events (ExecRemoteUtilityStmt en c) = []) \<and>
   (NumDataNodes en = 0 \<and> ctx_exec_type c = EXEC_ON_NONE
      \<longrightarrow> outcome (ExecRemoteUtilityStmt en c) = Inr ()
          \<and> events (ExecRemoteUtilityStmt en c) = [])"
  by (simp add: ExecRemoteUtilityStmt_def)

theorem dispatch_short_circuit_order_witness:
  "ExecRemoteUtilityStmt (example_env \<lparr> IsCoordMaster := False, NumDataNodes := 0 \<rparr>)
     (example_context \<lparr> ctx_exec_type := EXEC_ON_NONE, sentToRemote := True \<rparr>) = skip \<and>
   ExecRemoteUtilityStmt (example_env \<lparr> NumDataNodes := 0 \<rparr>)
     (example_context \<lparr> ctx_exec_type := EXEC_ON_NONE, sentToRemote := True \<rparr>) = skip \<and>
   ExecRemoteUtilityStmt (example_env \<lparr> NumDataNodes := 0 \<rparr>)
     (example_context \<lparr> sentToRemote := True \<rparr>) = skip \<and>
   ExecRemoteUtilityStmt (example_env \<lparr> NumDataNodes := 0 \<rparr>) example_context
     = ereport NoDataNodesConfigured \<and>
   (\<exists>step. events (ExecRemoteUtilityStmt example_env example_context)
      = [ExecInterXactUtility step]) \<and>
   ctx_exec_type example_context = EXEC_ON_ALL_NODES \<and>
   outcome (ExecRemoteUtilityStmt (example_env \<lparr> NumDataNodes := 0 \<rparr>) example_context)
     = Inl NoDataNodesConfigured \<and>
   events (ExecRemoteUtilityStmt (example_env \<lparr> NumDataNodes := 0 \<rparr>) example_context) = [] \<and>
   outcome (ExecRemoteUtilityStmt (example_env \<lparr> NumDataNodes := 0 \<rparr>)
              (example_context \<lparr> ctx_exec_type := EXEC_ON_NONE \<rparr>)) = Inr () \<and>
   events (ExecRemoteUtilityStmt (example_env \<lparr> NumDataNodes := 0 \<rparr>)
             (example_context \<lparr> ctx_exec_type := EXEC_ON_NONE \<rparr>)) = []"
  using dispatch_short_circuit_order
          [of "example_env \<lparr> IsCoordMaster := False, NumDataNodes := 0 \<rparr>"
              "example_context \<lparr> ctx_exec_type := EXEC_ON_NONE, sentToRemote := True \<rparr>"]
        dispatch_short_circuit_order
          [of "example_env \<lparr> NumDataNodes := 0 \<rparr>"
              "example_context \<lparr> ctx_exec_type := EXEC_ON_NONE, sentToRemote := True \<rparr>"]
        dispatch_short_circuit_order
          [of "example_env \<lparr> NumDataNodes := 0 \<rparr>" "example_context \<lparr> sentToRemote := True \<rparr>"]
        dispatch_short_circuit_order [of "example_env \<lparr> NumDataNodes := 0 \<rparr>" example_context]
        dispatch_short_circuit_order [of example_env example_context]
        dispatch_short_circuit_order
          [of "example_env \<lparr> NumDataNodes := 0 \<rparr>"
              "example_context \<lparr> ctx_exec_type := EXEC_ON_NONE \<rparr>"]
  by (simp add: example_env_def example_context_def)

subsection \<open>The node target resolver\<close>

text \<open>
  Claim C5. For an index, \<open>ExecUtilityFindNodes\<close> answers data nodes only and
  temporary when \<open>IsTempTable\<close> holds of the identifier; otherwise coordinators only,
  not temporary, when the identifier is a materialized view itself or an index whose
  base relation is one; otherwise all nodes, not temporary. The base relation is read
  from the index's catalog entry (the fourth and fifth cases cover an index with an entry
  and an identifier that is no index).
\<close>

theorem index_placement:
  "(IsTempTable en object_id
      \<longrightarrow> ExecUtilityFindNodes en OBJECT_INDEX object_id = Inr (EXEC_ON_DATANODES, True)) \<and>
   (\<not> IsTempTable en object_id \<and> get_rel_relkind en object_id = RELKIND_MATVIEW
      \<longrightarrow> ExecUtilityFindNodes en OBJECT_INDEX object_id = Inr (EXEC_ON_COORDS, False)) \<and>
   (\<not> IsTempTable en object_id \<and> get_rel_relkind en object_id = RELKIND_INDEX \<and>
    IndexGetRelation en object_id = Some heap \<and> get_rel_relkind en heap = RELKIND_MATVIEW
      \<longrightarrow> ExecUtilityFindNodes en OBJECT_INDEX object_id = Inr (EXEC_ON_COORDS, False)) \<and>
   (\<not> IsTempTable en object_id \<and> get_rel_relkind en object_id = RELKIND_INDEX \<and>
    IndexGetRelation en object_id = Some heap \<and> get_rel_relkind en heap \<noteq> RELKIND_MATVIEW
      \<longrightarrow> ExecUtilityFindNodes en OBJECT_INDEX object_id = Inr (EXEC_ON_ALL_NODES, False)) \<and>
   (\<not> IsTempTable en object_id \<and> get_rel_relkind en object_id \<noteq> RELKIND_INDEX \<and>
    get_rel_relkind en object_id \<noteq> RELKIND_MATVIEW
      \<longrightarrow> ExecUtilityFindNodes en OBJECT_INDEX object_id = Inr (EXEC_ON_ALL_NODES, False))"
  by (simp add: ExecUtilityFindNodes_def index_on_matview_def)

theorem index_placement_witness:
  "ExecUtilityFindNodes example_env OBJECT_INDEX 1 = Inr (EXEC_ON_DATANODES, True) \<and>
   ExecUtilityFindNodes example_env OBJECT_INDEX 3 = Inr (EXEC_ON_COORDS, False) \<and>
   ExecUtilityFindNodes example_env OBJECT_INDEX 4 = Inr (EXEC_ON_COORDS, False) \<and>
   ExecUtilityFindNodes example_env OBJECT_INDEX 5 = Inr (EXEC_ON_ALL_NODES, False) \<and>
   ExecUtilityFindNodes example_env OBJECT_INDEX 2 = Inr (EXEC_ON_ALL_NODES, False)"
  using index_placement [of example_env 1 0] index_placement [of example_env 3 0]
        index_placement [of example_env 4 3] index_placement [of example_env 5 2]
        index_placement [of example_env 2 0]
  by (simp add: example_env_def)

subsection \<open>DROP of several objects\<close>

text \<open>One round of the loop, by the lookup of the named object.\<close>

lemma DropStmt_foreach_Cons:
  "DropStmt_foreach en st (cell # cells) is_first t x =
     (case object_lookup en cell of
        Inl e \<Rightarrow> Inl e
      | Inr relid \<Rightarrow>
          if \<not> OidIsValid relid then
            (if missing_ok st then DropStmt_foreach en st cells is_first t x
             else Inl UndefinedObject)
          else
            (case ExecUtilityFindNodes en (removeType st) relid of
               Inl e \<Rightarrow> Inl e
             | Inr p \<Rightarrow>
                 if is_first then DropStmt_foreach en st cells False (snd p) (fst p)
                 else if p \<noteq> (x, t) then Inl (MixedPlacementError ''DROP'')
                 else DropStmt_foreach en st cells False t x))"
  by (auto simp: object_lookup_def split: sum.splits prod.splits)

declare DropStmt_foreach.simps(2) [simp del]





lemma foreach_all_skipped:
  "missing_ok st \<Longrightarrow> \<forall>cell \<in> set cells. missing en cell \<Longrightarrow>
   DropStmt_foreach en st cells is_first t x = Inr (t, x)"
  by (induction cells) (auto simp: DropStmt_foreach_Cons missing_def split: sum.splits)

lemma foreach_uniform_later:
  "\<forall>cell \<in> set cells. resolves en st cell (x, t) \<Longrightarrow>
   DropStmt_foreach en st cells False t x = Inr (t, x)"
  by (induction cells) (auto simp: DropStmt_foreach_Cons resolves_def split: sum.splits)

lemma foreach_uniform:
  "cells \<noteq> [] \<Longrightarrow> \<forall>cell \<in> set cells. resolves en st cell (x, t) \<Longrightarrow>
   DropStmt_foreach en st cells True t0 x0 = Inr (t, x)"
  by (cases cells)
    (auto simp: DropStmt_foreach_Cons resolves_def foreach_uniform_later split: sum.splits)

text \<open>
  The check rejects nothing else: when every named object exists and all resolve to one
  placement, the pre-treatment answers that placement.
\<close>

lemma drop_uniform_placement_accepted:
  assumes "IsCoordMaster en"
    and "removeType st \<in> {OBJECT_TABLE, OBJECT_SEQUENCE, OBJECT_VIEW, OBJECT_INDEX}"
    and "objects st \<noteq> []"
    and "\<forall>cell \<in> set (objects st). resolves en st cell (x, t)"
  shows "DropStmtPreTreatment en st queryString sent is_temp_in exec_type_in = return (t, x)"
  using assms foreach_uniform [of "objects st" en st x t False EXEC_ON_ALL_NODES]
  by (auto simp: DropStmtPreTreatment_def lift_def return_def)




text \<open>
  Claim C9 fails as stated: DROP TABLE IF EXISTS nosuch, public.gone, of two tables that do
  not exist, leaves the pre-treatment with its initial placement, all nodes and not
  temporary, and the statement is broadcast.
\<close>

theorem drop_all_skipped_counterexample:
  "objects drop_missing = [[''nosuch''], [''public'', ''gone'']] \<and>
   missing example_env [''nosuch''] \<and> missing example_env [''public'', ''gone''] \<and>
   missing_ok drop_missing \<and>
   outcome (DropStmtPreTreatment example_env drop_missing
              ''DROP TABLE IF EXISTS nosuch, public.gone'' False False EXEC_ON_ALL_NODES)
     = Inr (False, EXEC_ON_ALL_NODES) \<and>
   events (ExecDropStmt example_env drop_missing True
             ''DROP TABLE IF EXISTS nosuch, public.gone'' False)
     = [HOLD_INTERRUPTS, RemoveRelations drop_missing,
        ExecInterXactUtility
          \<lparr> sql_node = Some ''node'', exec_nodes = None,
            sql_statement = ''DROP TABLE IF EXISTS nosuch, public.gone'',
            force_autocommit = False, exec_type = EXEC_ON_ALL_NODES, is_temp = False \<rparr>,
        RESUME_INTERRUPTS]"
  by (simp add: drop_missing_def missing_def example_simps DropStmt_foreach_Cons
      ExecDropStmt_def DropStmtPreTreatment_def lift_def outcome_def events_def
      ExecRemoteUtilityStmt_def seq_def bind_def emit_def call_def return_def skip_def)

text \<open>
  Claim C9, as the code has it. On the coordinator master, for a DROP of tables,
  sequences, views or indexes that tolerates missing objects: when every named object is
  missing (its name list is a relation name and the lookup answers that no such relation
  exists), the pre-treatment raises nothing and answers its initial placement,
  \<open>EXEC_ON_ALL_NODES\<close> and not temporary. The statement then runs \<open>RemoveRelations\<close> and
  is handed to the dispatcher with target \<open>EXEC_ON_ALL_NODES\<close>, unless it is DROP INDEX
  CONCURRENTLY: that one is refused before the pre-treatment, having made no call but
  \<open>HOLD_INTERRUPTS\<close>.
\<close>

theorem drop_all_skipped_placement:
  assumes master: "IsCoordMaster en"
    and rel: "removeType st \<in> {OBJECT_TABLE, OBJECT_SEQUENCE, OBJECT_VIEW, OBJECT_INDEX}"
    and mok: "missing_ok st"
    and skipped: "\<forall>cell \<in> set (objects st). missing en cell"
  shows "DropStmtPreTreatment en st queryString sent is_temp_in exec_type_in
           = return (False, EXEC_ON_ALL_NODES) \<and>
         (\<not> (removeType st = OBJECT_INDEX \<and> concurrent st) \<longrightarrow>
            ExecDropStmt en st isTopLevel queryString sent
              = block [emit HOLD_INTERRUPTS,
                       call en (RemoveRelations st),
                       ExecRemoteUtilityStmt en
                         \<lparr> sentToRemote = sent, ctx_force_autocommit = False,
                           ctx_is_temp = False, ctx_exec_type = EXEC_ON_ALL_NODES,
                           stmt = Some (T_DropStmt st), query = queryString, nodes = None \<rparr>,
                       emit RESUME_INTERRUPTS]) \<and>
         (removeType st = OBJECT_INDEX \<and> concurrent st \<longrightarrow>
            ExecDropStmt en st isTopLevel queryString sent
              = seq (emit HOLD_INTERRUPTS)
                  (ereport (UnsupportedFeature ''PGXC does not support concurrent INDEX yet'')))"
proof -
  have pre: "DropStmtPreTreatment en st queryString sent b x = return (False, EXEC_ON_ALL_NODES)"
    for b x
    using master rel foreach_all_skipped [OF mok skipped]
    by (auto simp: DropStmtPreTreatment_def lift_def return_def)
  have "ExecDropStmt en st isTopLevel queryString sent
           = block [emit HOLD_INTERRUPTS,
                    call en (RemoveRelations st),
                    ExecRemoteUtilityStmt en
                      \<lparr> sentToRemote = sent, ctx_force_autocommit = False, ctx_is_temp = False,
                        ctx_exec_type = EXEC_ON_ALL_NODES, stmt = Some (T_DropStmt st),
                        query = queryString, nodes = None \<rparr>,
                    emit RESUME_INTERRUPTS]"
    if "\<not> (removeType st = OBJECT_INDEX \<and> concurrent st)"
    using rel that by (auto simp: ExecDropStmt_def pre bind_return)
  moreover have "ExecDropStmt en st isTopLevel queryString sent
           = seq (emit HOLD_INTERRUPTS)
               (ereport (UnsupportedFeature ''PGXC does not support concurrent INDEX yet''))"
    if "removeType st = OBJECT_INDEX \<and> concurrent st"
    using that by (simp add: ExecDropStmt_def)
  ultimately show ?thesis using pre by simp
qed

text \<open>
  The theorem at DROP TABLE IF EXISTS nosuch, public.gone and at DROP INDEX CONCURRENTLY
  IF EXISTS nosuch, public.gone. A name into another database and a name of four parts
  are not missing: their lookup raises.
\<close>

theorem drop_all_skipped_placement_witness:
  "IsCoordMaster example_env \<and> missing_ok drop_missing \<and>
   objects drop_missing = [[''nosuch''], [''public'', ''gone'']] \<and>
   missing example_env [''nosuch''] \<and> missing example_env [''public'', ''gone''] \<and>
   \<not> missing example_env [''otherdb'', ''public'', ''gone''] \<and>
   \<not> missing example_env [''a'', ''b'', ''c'', ''d''] \<and>
   DropStmtPreTreatment example_env drop_missing ''DROP TABLE IF EXISTS nosuch, public.gone''
       False False EXEC_ON_NONE
     = return (False, EXEC_ON_ALL_NODES) \<and>
   ExecDropStmt example_env drop_missing True ''DROP TABLE IF EXISTS nosuch, public.gone'' False
     = block [emit HOLD_INTERRUPTS,
              call example_env (RemoveRelations drop_missing),
              ExecRemoteUtilityStmt example_env
                \<lparr> sentToRemote = False, ctx_force_autocommit = False,
                  ctx_is_temp = False, ctx_exec_type = EXEC_ON_ALL_NODES,
                  stmt = Some (T_DropStmt drop_missing),
                  query = ''DROP TABLE IF EXISTS nosuch, public.gone'', nodes = None \<rparr>,
              emit RESUME_INTERRUPTS] \<and>
   ExecDropStmt example_env (drop_missing \<lparr> removeType := OBJECT_INDEX, concurrent := True \<rparr>)
       True ''DROP INDEX CONCURRENTLY IF EXISTS nosuch, public.gone'' False
     = seq (emit HOLD_INTERRUPTS)
         (ereport (UnsupportedFeature ''PGXC does not support concurrent INDEX yet''))"
proof -
  let ?ci = "drop_missing \<lparr> removeType := OBJECT_INDEX, concurrent := True \<rparr>"
  have m: "IsCoordMaster example_env" by (simp add: example_env_def)
  have k: "removeType drop_missing \<in> {OBJECT_TABLE, OBJECT_SEQUENCE, OBJECT_VIEW, OBJECT_INDEX}"
    and k': "removeType ?ci \<in> {OBJECT_TABLE, OBJECT_SEQUENCE, OBJECT_VIEW, OBJECT_INDEX}"
    and nc: "\<not> (removeType drop_missing = OBJECT_INDEX \<and> concurrent drop_missing)"
    and c: "removeType ?ci = OBJECT_INDEX \<and> concurrent ?ci"
    and mok: "missing_ok drop_missing" "missing_ok ?ci"
    and ob: "objects drop_missing = [[''nosuch''], [''public'', ''gone'']]"
    by (simp_all add: drop_missing_def)
  have ms: "missing example_env [''nosuch'']" "missing example_env [''public'', ''gone'']"
    "\<not> missing example_env [''otherdb'', ''public'', ''gone'']"
    "\<not> missing example_env [''a'', ''b'', ''c'', ''d'']"
    by (simp_all add: missing_def example_simps)
  have sk: "\<forall>cell \<in> set (objects drop_missing). missing example_env cell"
    "\<forall>cell \<in> set (objects ?ci). missing example_env cell"
    using ms by (simp_all add: ob)
  from drop_all_skipped_placement [OF m k mok(1) sk(1), of
         "''DROP TABLE IF EXISTS nosuch, public.gone''" False False EXEC_ON_NONE True]
    drop_all_skipped_placement [OF m k' mok(2) sk(2), of
         "''DROP INDEX CONCURRENTLY IF EXISTS nosuch, public.gone''" False False EXEC_ON_NONE True]
    m mok ob ms nc c
  show ?thesis by simp
qed

subsection \<open>Transaction statements\<close>

lemma seq_skip_left [simp]: "seq skip k = k"
  by (simp add: seq_def bind_def skip_def)

lemma seq_ereport [simp]: "seq (ereport e) k = ereport e"
  by (simp add: seq_def bind_def ereport_def)

lemma seq_skip_right [simp]: "seq m skip = m"
  by (cases m) (auto simp: seq_def bind_def skip_def split: sum.splits)

lemma standard_prologue_TransactionStmt:
  "standard_ProcessUtility en (T_TransactionStmt st) q context sent tag =
     TransactionStmt_arm en st (context = PROCESS_UTILITY_TOPLEVEL) (strcpy_tag tag [])"
  by (simp add: standard_ProcessUtility.simps check_xact_readonly_def)

text \<open>
  Claim C6, as the code has it. In the cluster build the SAVEPOINT arm begins with an
  unconditional \<^verbatim>\<open>ereport(ERROR, "SAVEPOINT is not yet supported.")\<close>: every SAVEPOINT
  statement fails with that error and makes no call at all, whether or not a transaction
  block is open; the transaction-block check and \<^verbatim>\<open>DefineSavepoint\<close> are never reached.
\<close>

theorem savepoint_rejected:
  "kind st = TRANS_STMT_SAVEPOINT \<Longrightarrow>
   standard_ProcessUtility en (T_TransactionStmt st) queryString context sent completionTag
     = ereport (StatementTooComplex ''SAVEPOINT is not yet supported.'')"
  by (simp add: standard_prologue_TransactionStmt TransactionStmt_arm_def)

theorem savepoint_rejected_witness:
  "kind savepoint_stmt = TRANS_STMT_SAVEPOINT \<and>
   standard_ProcessUtility (example_env \<lparr> IsTransactionBlock := False \<rparr>)
       (T_TransactionStmt savepoint_stmt) ''SAVEPOINT sp1'' PROCESS_UTILITY_TOPLEVEL False
       (Some [])
     = ereport (StatementTooComplex ''SAVEPOINT is not yet supported.'')"
  using savepoint_rejected [of savepoint_stmt "example_env \<lparr> IsTransactionBlock := False \<rparr>"
      "''SAVEPOINT sp1''" PROCESS_UTILITY_TOPLEVEL False "Some []"]
  by (simp add: savepoint_stmt_def)

text \<open>
  Claim C6 fails as stated: inside a transaction block, SAVEPOINT sp1 raises and defines
  no savepoint.
\<close>

theorem savepoint_in_block_counterexample:
  "IsTransactionBlock example_env \<and>
   kind savepoint_stmt = TRANS_STMT_SAVEPOINT \<and>
   outcome (standard_ProcessUtility example_env (T_TransactionStmt savepoint_stmt)
              ''SAVEPOINT sp1'' PROCESS_UTILITY_TOPLEVEL False (Some []))
     = Inl (StatementTooComplex ''SAVEPOINT is not yet supported.'') \<and>
   DefineSavepoint (Some ''sp1'') \<notin>
     set (events (standard_ProcessUtility example_env (T_TransactionStmt savepoint_stmt)
                    ''SAVEPOINT sp1'' PROCESS_UTILITY_TOPLEVEL False (Some [])))"
  by (simp add: standard_prologue_TransactionStmt TransactionStmt_arm_def savepoint_stmt_def
      example_env_def)

text \<open>
  Claim C7. When \<^verbatim>\<open>EndTransactionBlock\<close> returns false for a COMMIT, or
  \<^verbatim>\<open>PrepareTransactionBlock\<close> returns false for a PREPARE TRANSACTION (which is asked only
  outside recovery), the handler raises nothing and the completion tag it leaves in the
  caller's buffer is exactly \<open>ROLLBACK\<close>, whatever the buffer held; a caller that
  passed no buffer gets none.
\<close>

theorem unsuccessful_commit_tag:
  "(kind st = TRANS_STMT_COMMIT \<and> raises en EndTransactionBlock = None \<and>
    \<not> EndTransactionBlock_result en
      \<longrightarrow> outcome (standard_ProcessUtility en (T_TransactionStmt st) queryString context sent
                     (Some buffer)) = Inr (Some ''ROLLBACK'')
          \<and> outcome (standard_ProcessUtility en (T_TransactionStmt st) queryString context sent
                     None) = Inr None) \<and>
   (kind st = TRANS_STMT_PREPARE \<and> \<not> RecoveryInProgress en \<and>
    raises en (PrepareTransactionBlock (gid st)) = None \<and>
    \<not> PrepareTransactionBlock_result en (gid st)
      \<longrightarrow> outcome (standard_ProcessUtility en (T_TransactionStmt st) queryString context sent
                     (Some buffer)) = Inr (Some ''ROLLBACK'')
          \<and> outcome (standard_ProcessUtility en (T_TransactionStmt st) queryString context sent
                     None) = Inr None)"
  by (simp add: standard_prologue_TransactionStmt TransactionStmt_arm_def strcpy_tag_def
      PreventCommandDuringRecovery_def outcome_seq)

theorem unsuccessful_commit_tag_witness:
  "outcome (standard_ProcessUtility example_env (T_TransactionStmt commit_stmt) ''COMMIT''
              PROCESS_UTILITY_TOPLEVEL False (Some ''junk'')) = Inr (Some ''ROLLBACK'') \<and>
   outcome (standard_ProcessUtility example_env (T_TransactionStmt prepare_stmt)
              ''PREPARE TRANSACTION gx1'' PROCESS_UTILITY_TOPLEVEL False (Some ''junk''))
     = Inr (Some ''ROLLBACK'')"
  using unsuccessful_commit_tag [of commit_stmt example_env "''COMMIT''"
          PROCESS_UTILITY_TOPLEVEL False "''junk''"]
        unsuccessful_commit_tag [of prepare_stmt example_env "''PREPARE TRANSACTION gx1''"
          PROCESS_UTILITY_TOPLEVEL False "''junk''"]
  by (simp add: commit_stmt_def prepare_stmt_def example_env_def)


subsection \<open>Quiet computations\<close>

lemma quiet_basic [simp]:
  "quiet P (return v)" "quiet P skip" "quiet P (ereport e)" "quiet P (lift r)"
  "quiet P (emit ev) = (\<not> P ev)" "quiet P (call en ev) = (\<not> P ev)"
  by (simp_all add: quiet_def)

lemma quiet_bind:
  "quiet P m \<Longrightarrow> (\<And>v. outcome m = Inr v \<Longrightarrow> quiet P (f v)) \<Longrightarrow> quiet P (bind m f)"
  by (simp add: quiet_def events_bind split: sum.splits)

lemma quiet_seq: "quiet P m \<Longrightarrow> quiet P k \<Longrightarrow> quiet P (seq m k)"
  by (simp add: seq_def quiet_bind)

lemma quiet_discard: "quiet P m \<Longrightarrow> quiet P (discard m)"
  by (simp add: discard_def quiet_bind)

lemma quiet_block_Cons: "quiet P m \<Longrightarrow> quiet P (block ms) \<Longrightarrow> quiet P (block (m # ms))"
  by (simp add: quiet_seq)

lemma quiet_block_Nil: "quiet P (block [])"
  by simp

lemma quiet_PG_TRY: "quiet P body \<Longrightarrow> quiet P handler \<Longrightarrow> quiet P (PG_TRY body handler)"
  by (auto simp: PG_TRY_def quiet_def events_def split: sum.splits)

lemmas quiet_intros =
  quiet_bind quiet_seq quiet_discard quiet_block_Cons quiet_block_Nil quiet_PG_TRY

lemma quiet_dispatch_sent:
  "sentToRemote c \<Longrightarrow> quiet is_transport (ExecRemoteUtilityStmt en c)"
  by (simp add: ExecRemoteUtilityStmt_def)

lemma quiet_dispatch_other:
  "\<forall>step. \<not> P (ExecInterXactUtility step) \<Longrightarrow> quiet P (ExecRemoteUtilityStmt en c)"
  by (simp add: ExecRemoteUtilityStmt_def)

lemma quiet_check_xact_readonly: "quiet P (check_xact_readonly en n)"
  by (simp add: check_xact_readonly_def PreventCommandIfReadOnly_def
      PreventCommandIfParallelMode_def quiet_seq)

lemma quiet_PreventCommandDuringRecovery [simp]: "quiet P (PreventCommandDuringRecovery en c)"
  by (simp add: PreventCommandDuringRecovery_def)

lemma quiet_RequireTransactionChain [simp]: "quiet P (RequireTransactionChain en t c)"
  by (simp add: RequireTransactionChain_def)

lemma quiet_begin_options:
  "\<forall>a b. \<not> P (SetPGVariable a b) \<Longrightarrow> quiet P (block (map (begin_option en) opts))"
  by (induction opts) (auto simp: begin_option_def intro!: quiet_seq)

lemma controlD:
  "control P \<Longrightarrow> P ev \<Longrightarrow> is_transport ev \<or> is_batch ev \<or> is_advance ev \<or> is_entry ev"
  by (simp add: control_def)

lemma control_instances [simp]:
  "control is_transport" "control is_batch" "control is_advance" "control is_foreign_entry"
proof -
  show "control is_transport" "control is_batch" "control is_advance"
    by (simp_all add: control_def)
  show "control is_foreign_entry"
    unfolding control_def
  proof (intro allI impI)
    fix ev assume "is_foreign_entry ev"
    then show "is_transport ev \<or> is_batch ev \<or> is_advance ev \<or> is_entry ev"
      by (cases ev) simp_all
  qed
qed

lemma dispatcher_quietD:
  "dispatcher_quiet P en sent \<Longrightarrow> sentToRemote c = sent \<Longrightarrow> quiet P (ExecRemoteUtilityStmt en c)"
  by (simp add: dispatcher_quiet_def)

lemma dispatcher_quiet_instances [simp]:
  "dispatcher_quiet is_transport en True" "dispatcher_quiet is_batch en sent"
  "dispatcher_quiet is_advance en sent" "dispatcher_quiet is_foreign_entry en sent"
  by (simp_all add: dispatcher_quiet_def quiet_dispatch_sent quiet_dispatch_other)

lemma quiet_IndexStmt_arm:
  assumes c: "control P" and d: "dispatcher_quiet P en sent"
  shows "quiet P (IndexStmt_arm en st q isTop sent)"
  unfolding IndexStmt_arm_def Let_def
  by (auto intro!: quiet_intros dispatcher_quietD [OF d] dest!: controlD [OF c]
      simp: initial_context_def split: prod.splits)

lemma quiet_CreateSeqStmt_arm:
  assumes c: "control P" and d: "dispatcher_quiet P en sent"
  shows "quiet P (CreateSeqStmt_arm en st q sent)"
  unfolding CreateSeqStmt_arm_def
  by (auto intro!: quiet_intros dispatcher_quietD [OF d] dest!: controlD [OF c]
      simp: initial_context_def)

lemma quiet_AlterSeqStmt_arm:
  assumes c: "control P" and d: "dispatcher_quiet P en sent"
  shows "quiet P (AlterSeqStmt_arm en st q sent)"
  unfolding AlterSeqStmt_arm_def Let_def
  by (auto intro!: quiet_intros dispatcher_quietD [OF d] dest!: controlD [OF c]
      simp: initial_context_def split: sum.splits prod.splits)

lemma quiet_CreateDomainStmt_arm:
  assumes c: "control P" and d: "dispatcher_quiet P en sent"
  shows "quiet P (CreateDomainStmt_arm en st q sent)"
  unfolding CreateDomainStmt_arm_def
  by (auto intro!: quiet_intros dispatcher_quietD [OF d] dest!: controlD [OF c]
      simp: initial_context_def)

lemma quiet_CreateTableAsStmt_arm:
  assumes c: "control P" and d: "dispatcher_quiet P en sent"
  shows "quiet P (CreateTableAsStmt_arm en st q sent)"
  unfolding CreateTableAsStmt_arm_def
  by (auto intro!: quiet_intros dispatcher_quietD [OF d] dest!: controlD [OF c]
      simp: initial_context_def)

lemma quiet_RefreshMatViewStmt_arm:
  assumes c: "control P" and d: "dispatcher_quiet P en sent"
  shows "quiet P (RefreshMatViewStmt_arm en st q sent)"
  unfolding RefreshMatViewStmt_arm_def
  by (auto intro!: quiet_intros dispatcher_quietD [OF d] dest!: controlD [OF c]
      simp: initial_context_def)

lemma quiet_VariableSetStmt_arm:
  assumes c: "control P"
  shows "quiet P (VariableSetStmt_arm en st isTop q)"
  unfolding VariableSetStmt_arm_def PoolManagerSetCommand_checked_def
  by (auto intro!: quiet_intros dest!: controlD [OF c])

lemma quiet_DropStmtPreTreatment:
  assumes c: "control P"
  shows "quiet P (DropStmtPreTreatment en st q sent t x)"
  unfolding DropStmtPreTreatment_def
  by (auto intro!: quiet_intros dest!: controlD [OF c] split: list.splits option.splits)

lemma quiet_ExecDropStmt:
  assumes c: "control P" and d: "dispatcher_quiet P en sent"
  shows "quiet P (ExecDropStmt en st isTop q sent)"
  unfolding ExecDropStmt_def Let_def
  by (auto intro!: quiet_intros quiet_DropStmtPreTreatment [OF c] dispatcher_quietD [OF d]
      dest!: controlD [OF c])

lemma quiet_TransactionStmt_arm:
  assumes c: "control P"
  shows "quiet P (TransactionStmt_arm en st isTop tag)"
  unfolding TransactionStmt_arm_def
  by (auto intro!: quiet_intros quiet_begin_options dest!: controlD [OF c]
      split: TransactionStmtKind.splits)

subsection \<open>The recursion through sub-statements\<close>

lemma CreateStmt_stmts_sent:
  "CreateStmt_stmts en p stmts tr q True = Inr b \<Longrightarrow> b = stmts"
  by (auto simp: CreateStmt_stmts_def split: sum.splits if_splits)

lemma AlterTable_stmts_sent:
  "AlterTable_stmts en p a stmts q True = Inr b \<Longrightarrow> b = stmts"
  by (auto simp: AlterTable_stmts_def split: sum.splits if_splits)

lemma executed_list_sent:
  "compound n \<Longrightarrow> executed_list en n q True = Inr b \<Longrightarrow>
   (\<Union>m \<in> set b. remote_steps m) = remote_steps n"
  by (cases n) (auto simp: executed_list_def dest!: CreateStmt_stmts_sent AlterTable_stmts_sent)

lemma steps_quiet_Union:
  "(\<forall>m \<in> set b. steps_quiet P m) =
     (\<forall>step \<in> (\<Union>m \<in> set b. remote_steps m). \<not> P (ExecInterXactUtility step))"
  by (auto simp: steps_quiet_def)

lemma statement_quiet_nested:
  assumes "nested_quiet P en" and "steps_quiet P st"
  shows "statement_quiet P en st q True"
proof (cases "compound st")
  case True
  have "\<forall>m \<in> set b. steps_quiet P m" if "executed_list en st q True = Inr b" for b
  proof -
    from executed_list_sent [OF True that]
    have "(\<Union>m \<in> set b. remote_steps m) = remote_steps st" .
    with assms(2) show ?thesis unfolding steps_quiet_def by blast
  qed
  with True show ?thesis by (simp add: statement_quiet_def)
next
  case False
  with assms show ?thesis
    by (simp add: statement_quiet_def nested_quiet_def)
qed

lemma statement_quiet_silent:
  assumes "\<forall>step. \<not> P (ExecInterXactUtility step)"
  shows "statement_quiet P en n q sent"
  using assms
  by (auto simp: statement_quiet_def steps_quiet_def dispatcher_quiet_def quiet_dispatch_other)

lemma statement_quiet_compound:
  "compound n \<Longrightarrow> statement_quiet P en n q sent \<Longrightarrow> executed_list en n q sent = Inr b \<Longrightarrow>
   \<forall>m \<in> set b. steps_quiet P m"
  by (simp add: statement_quiet_def)

lemma statement_quiet_simple:
  "\<not> compound n \<Longrightarrow> statement_quiet P en n q sent \<Longrightarrow>
   steps_quiet P n \<and> dispatcher_quiet P en sent"
  by (simp add: statement_quiet_def)

lemma isCompleteQuery_SUBCOMMAND [simp]: "\<not> isCompleteQuery PROCESS_UTILITY_SUBCOMMAND"
  by (simp add: isCompleteQuery_def)

lemma quiet_recursion:
  "nested_quiet P en1 \<longrightarrow> \<not> P (Enter_ProcessUtility n1 ctx1 sent1) \<longrightarrow> batch_free P ctx1 \<longrightarrow>
     statement_quiet P en1 n1 q1 sent1 \<longrightarrow> quiet P (ProcessUtility en1 n1 q1 ctx1 sent1 tag1)"
  "nested_quiet P en2 \<longrightarrow> batch_free P ctx2 \<longrightarrow> statement_quiet P en2 n2 q2 sent2 \<longrightarrow>
     quiet P (standard_ProcessUtility en2 n2 q2 ctx2 sent2 tag2)"
  "nested_quiet P en3 \<longrightarrow> batch_free P ctx3 \<longrightarrow> statement_quiet P en3 n3 q3 sent3 \<longrightarrow>
     quiet P (ProcessUtilitySlow en3 n3 q3 ctx3 sent3 tag3)"
  "nested_quiet P en4 \<longrightarrow> statement_quiet P en4 n4 q4 sent4 \<longrightarrow>
     quiet P (ProcessUtilitySlow_switch en4 n4 q4 ctx4 sent4)"
  "nested_quiet P en5 \<longrightarrow> (\<forall>m \<in> set stmts5. steps_quiet P m) \<longrightarrow>
     quiet P (CreateStmt_foreach en5 q5 stmts5)"
  "nested_quiet P en6 \<longrightarrow> (\<forall>m \<in> set stmts6. steps_quiet P m) \<longrightarrow>
     quiet P (AlterTable_foreach en6 q6 p6 relid6 stmts6)"
proof (induction en1 n1 q1 ctx1 sent1 tag1 and en2 n2 q2 ctx2 sent2 tag2
    and en3 n3 q3 ctx3 sent3 tag3 and en4 n4 q4 ctx4 sent4 and en5 q5 stmts5
    and en6 q6 p6 relid6 stmts6
    rule: ProcessUtility_standard_ProcessUtility_ProcessUtilitySlow_ProcessUtilitySlow_switch_CreateStmt_foreach_AlterTable_foreach.induct)
  case (1 en parsetree queryString ctx sent completionTag)
  show ?case
  proof (intro impI)
    assume h: "nested_quiet P en" "\<not> P (Enter_ProcessUtility parsetree ctx sent)"
      "batch_free P ctx" "statement_quiet P en parsetree queryString sent"
    have c: "control P" using h(1) by (simp add: nested_quiet_def)
    have nh: "\<not> P (ProcessUtility_hook_call parsetree ctx sent)"
      using controlD [OF c] by fastforce
    show "quiet P (ProcessUtility en parsetree queryString ctx sent completionTag)"
      using 1 h nh by (auto simp: ProcessUtility.simps intro!: quiet_intros)
  qed
next
  case (2 en parsetree queryString ctx sent completionTag)
  show ?case
  proof (intro impI)
    assume h: "nested_quiet P en" "batch_free P ctx"
      "statement_quiet P en parsetree queryString sent"
    have c: "control P" using h(1) by (simp add: nested_quiet_def)
    have nl: "\<not> P (pgxc_lock_for_utility_stmt parsetree)"
      using controlD [OF c] by fastforce
    have pro: "quiet P (block [if IsCoordMaster en \<and> IsNormalProcessingMode en \<and>
                    \<not> IsStmtAllowedInLockedMode parsetree
                 then call en (pgxc_lock_for_utility_stmt parsetree) else skip,
                 check_xact_readonly en parsetree])"
      using nl by (auto intro!: quiet_intros quiet_check_xact_readonly)
    have slow: "quiet P (ProcessUtilitySlow en parsetree queryString ctx sent
                           (strcpy_tag completionTag []))"
      if "\<forall>st. parsetree \<noteq> T_TransactionStmt st" "\<forall>st. parsetree \<noteq> T_TruncateStmt st"
        "\<forall>r. parsetree \<noteq> T_GrantRoleStmt r" "\<forall>st. parsetree \<noteq> T_VariableSetStmt st"
        "\<forall>step. parsetree \<noteq> T_RemoteQuery step"
        "\<forall>st. parsetree = T_DropStmt st \<longrightarrow> EventTriggerSupportsObjectType en (removeType st)"
      using 2 h that by (cases parsetree) simp_all
    have body: "quiet P (case parsetree of
          T_TransactionStmt st \<Rightarrow>
            TransactionStmt_arm en st (ctx = PROCESS_UTILITY_TOPLEVEL)
              (strcpy_tag completionTag [])
        | T_TruncateStmt st \<Rightarrow>
            seq (call en (ExecuteTruncate st queryString))
              (return (strcpy_tag completionTag []))
        | T_GrantRoleStmt rolename \<Rightarrow>
            seq (block [call en (GrantRole rolename),
                        ExecRemoteUtilityStmt en (initial_context sent queryString)])
              (return (strcpy_tag completionTag []))
        | T_VariableSetStmt st \<Rightarrow>
            seq (VariableSetStmt_arm en st (ctx = PROCESS_UTILITY_TOPLEVEL) queryString)
              (return (strcpy_tag completionTag []))
        | T_DropStmt st \<Rightarrow>
            seq (if EventTriggerSupportsObjectType en (removeType st) then
                   ProcessUtilitySlow en parsetree queryString ctx sent
                     (strcpy_tag completionTag [])
                 else ExecDropStmt en st (ctx = PROCESS_UTILITY_TOPLEVEL) queryString sent)
              (return (strcpy_tag completionTag []))
        | T_RemoteQuery step \<Rightarrow>
            seq (if \<not> IsConnFromCoord en then call en (ExecInterXactUtility step) else skip)
              (return (strcpy_tag completionTag []))
        | _ \<Rightarrow>
            seq (ProcessUtilitySlow en parsetree queryString ctx sent
                   (strcpy_tag completionTag []))
              (return (strcpy_tag completionTag [])))"
    proof (cases parsetree)
      case (T_TransactionStmt st)
      then show ?thesis by (simp add: quiet_TransactionStmt_arm [OF c])
    next
      case (T_RemoteQuery step)
      with h(3) show ?thesis
        by (auto simp: statement_quiet_def steps_quiet_def intro!: quiet_intros)
    next
      case (T_TruncateStmt st)
      have "\<not> P (ExecuteTruncate st queryString)"
        using controlD [OF c] by fastforce
      with T_TruncateStmt show ?thesis by (auto intro!: quiet_intros)
    next
      case (T_GrantRoleStmt rolename)
      have "\<not> P (GrantRole rolename)"
        using controlD [OF c] by fastforce
      moreover have "dispatcher_quiet P en sent"
        using h(3) T_GrantRoleStmt by (simp add: statement_quiet_def)
      ultimately show ?thesis
        using T_GrantRoleStmt
        by (auto intro!: quiet_intros dispatcher_quietD simp: initial_context_def)
    next
      case (T_VariableSetStmt st)
      then show ?thesis by (auto intro!: quiet_intros quiet_VariableSetStmt_arm [OF c])
    next
      case (T_DropStmt st)
      have d: "dispatcher_quiet P en sent"
        using h(3) T_DropStmt by (simp add: statement_quiet_def)
      show ?thesis
        using T_DropStmt slow by (auto intro!: quiet_intros quiet_ExecDropStmt [OF c d])
    qed (use slow in \<open>auto intro!: quiet_intros\<close>)
    show "quiet P (standard_ProcessUtility en parsetree queryString ctx sent completionTag)"
      unfolding standard_ProcessUtility.simps
      by (rule quiet_seq [OF pro body])
  qed
next
  case (3 en parsetree queryString ctx sent completionTag)
  show ?case
  proof (intro impI)
    assume h: "nested_quiet P en" "batch_free P ctx"
      "statement_quiet P en parsetree queryString sent"
    have c: "control P" using h(1) by (simp add: nested_quiet_def)
    have sw: "quiet P (ProcessUtilitySlow_switch en parsetree queryString ctx sent)"
      using 3 h by simp
    have nb: "isCompleteQuery ctx \<Longrightarrow>
        \<not> P EventTriggerBeginCompleteQuery \<and> \<not> P EventTriggerEndCompleteQuery"
      using h(2) by (auto simp: batch_free_def)
    have ne: "\<not> P (EventTriggerDDLCommandStart parsetree)"
      "\<not> P (EventTriggerCollectSimpleCommand parsetree)"
      "\<not> P (EventTriggerSQLDrop parsetree)" "\<not> P (EventTriggerDDLCommandEnd parsetree)"
      using controlD [OF c] by fastforce+
    show "quiet P (ProcessUtilitySlow en parsetree queryString ctx sent completionTag)"
      unfolding ProcessUtilitySlow.simps
      using sw nb ne by (auto intro!: quiet_intros simp: outcome_seq split: if_splits)
  qed
next
  case (4 en parsetree queryString ctx sent)
  show ?case
  proof (intro impI)
    assume h: "nested_quiet P en" "statement_quiet P en parsetree queryString sent"
    have c: "control P" using h(1) by (simp add: nested_quiet_def)
    have d: "dispatcher_quiet P en sent" if "\<not> compound parsetree"
      using statement_quiet_simple [OF that h(2)] by simp
    show "quiet P (ProcessUtilitySlow_switch en parsetree queryString ctx sent)"
    proof (cases parsetree)
      case (T_CreateStmt cs stmts tr)
      have "\<forall>m \<in> set b. steps_quiet P m"
        if "CreateStmt_stmts en parsetree stmts tr queryString sent = Inr b" for b
        using statement_quiet_compound [OF _ h(2), of b] that T_CreateStmt
        by (simp add: executed_list_def)
      then show ?thesis
        using 4(1) [OF T_CreateStmt] h(1)
        by (auto simp: ProcessUtilitySlow_switch.simps T_CreateStmt intro!: quiet_intros
            split: sum.splits)
    next
      case (T_CreateForeignTableStmt cs stmts tr)
      have "\<forall>m \<in> set b. steps_quiet P m"
        if "CreateStmt_stmts en parsetree stmts tr queryString sent = Inr b" for b
        using statement_quiet_compound [OF _ h(2), of b] that T_CreateForeignTableStmt
        by (simp add: executed_list_def)
      then show ?thesis
        using 4(2) [OF T_CreateForeignTableStmt] h(1)
        by (auto simp: ProcessUtilitySlow_switch.simps T_CreateForeignTableStmt
            intro!: quiet_intros split: sum.splits)
    next
      case (T_AlterTableStmt atstmt stmts)
      have ne: "\<not> P (AlterTableLookupRelation atstmt)"
        "\<not> P (EventTriggerAlterTableStart parsetree)"
        "\<not> P (EventTriggerAlterTableRelid (AlterTableLookupRelation_result en atstmt))"
        "\<not> P EventTriggerAlterTableEnd"
        using controlD [OF c] by fastforce+
      have "\<forall>m \<in> set b. steps_quiet P m"
        if "AlterTable_stmts en parsetree atstmt stmts queryString sent = Inr b" for b
        using statement_quiet_compound [OF _ h(2), of b] that T_AlterTableStmt
        by (simp add: executed_list_def)
      then show ?thesis
        using 4(3) [OF T_AlterTableStmt] h(1) ne
        by (auto simp: ProcessUtilitySlow_switch.simps T_AlterTableStmt
            intro!: quiet_intros split: sum.splits)
    qed (use d in \<open>simp_all add: ProcessUtilitySlow_switch.simps quiet_IndexStmt_arm [OF c]
        quiet_CreateSeqStmt_arm [OF c] quiet_AlterSeqStmt_arm [OF c]
        quiet_CreateDomainStmt_arm [OF c] quiet_seq quiet_ExecDropStmt [OF c]
        quiet_CreateTableAsStmt_arm [OF c] quiet_RefreshMatViewStmt_arm [OF c]\<close>)
  qed
next
  case (5 en queryString)
  show ?case by simp
next
  case (6 en queryString st rest)
  show ?case
  proof (intro impI)
    assume h: "nested_quiet P en" "\<forall>m \<in> set (st # rest). steps_quiet P m"
    have c: "control P" and nc: "\<not> P CommandCounterIncrement"
      and ne: "\<not> P (Enter_ProcessUtility st PROCESS_UTILITY_SUBCOMMAND True)"
      using h(1) by (simp_all add: nested_quiet_def)
    have t: "statement_quiet P en st queryString True" "\<forall>m \<in> set rest. steps_quiet P m"
      using h by (simp_all add: statement_quiet_nested)
    have b: "batch_free P PROCESS_UTILITY_SUBCOMMAND" by (simp add: batch_free_def)
    have rest: "quiet P (CreateStmt_foreach en queryString rest)"
      using 6 h(1) t by simp
    have sub: "quiet P (ProcessUtility en st queryString PROCESS_UTILITY_SUBCOMMAND True None)"
      if "\<forall>cs l tr. st \<noteq> T_CreateStmt cs l tr" "\<forall>cs l tr. st \<noteq> T_CreateForeignTableStmt cs l tr"
      using 6 h(1) ne b t(1) that by (cases st) simp_all
    have hd: "quiet P (case st of
            T_CreateStmt cs _ _ \<Rightarrow>
              block [call en (DefineRelation cs RELKIND_RELATION),
                     call en (EventTriggerCollectSimpleCommand st),
                     emit CommandCounterIncrement,
                     call en (transformRelOptions cs),
                     call en (heap_reloptions cs),
                     call en (NewRelationCreateToastTable cs)]
          | T_CreateForeignTableStmt cs _ _ \<Rightarrow>
              block [call en (DefineRelation cs RELKIND_FOREIGN_TABLE),
                     call en (CreateForeignTable cs),
                     call en (EventTriggerCollectSimpleCommand st)]
          | _ \<Rightarrow>
              discard (ProcessUtility en st queryString PROCESS_UTILITY_SUBCOMMAND True None))"
      using sub nc by (cases st) (auto intro!: quiet_intros dest!: controlD [OF c])
    show "quiet P (CreateStmt_foreach en queryString (st # rest))"
      unfolding CreateStmt_foreach.simps
      using hd rest nc by (auto intro!: quiet_intros)
  qed
next
  case (7 en queryString parsetree relid)
  show ?case by simp
next
  case (8 en queryString parsetree relid st rest)
  show ?case
  proof (intro impI)
    assume h: "nested_quiet P en" "\<forall>m \<in> set (st # rest). steps_quiet P m"
    have c: "control P" and nc: "\<not> P CommandCounterIncrement"
      and ne: "\<not> P (Enter_ProcessUtility st PROCESS_UTILITY_SUBCOMMAND True)"
      using h(1) by (simp_all add: nested_quiet_def)
    have t: "statement_quiet P en st queryString True" "\<forall>m \<in> set rest. steps_quiet P m"
      using h by (simp_all add: statement_quiet_nested)
    have b: "batch_free P PROCESS_UTILITY_SUBCOMMAND" by (simp add: batch_free_def)
    have rest: "quiet P (AlterTable_foreach en queryString parsetree relid rest)"
      using 8 h(1) t by simp
    have sub: "quiet P (ProcessUtility en st queryString PROCESS_UTILITY_SUBCOMMAND True None)"
      if "\<forall>a l. st \<noteq> T_AlterTableStmt a l"
      using 8 h(1) ne b t(1) that by (cases st) simp_all
    have hd: "quiet P (case st of
            T_AlterTableStmt atstmt _ \<Rightarrow> call en (AlterTable relid atstmt)
          | _ \<Rightarrow>
              block [call en EventTriggerAlterTableEnd,
                     discard (ProcessUtility en st queryString PROCESS_UTILITY_SUBCOMMAND
                                True None),
                     call en (EventTriggerAlterTableStart parsetree),
                     call en (EventTriggerAlterTableRelid relid)])"
      using sub by (cases st) (auto intro!: quiet_intros dest!: controlD [OF c])
    show "quiet P (AlterTable_foreach en queryString parsetree relid (st # rest))"
      unfolding AlterTable_foreach.simps
      using hd rest nc by (auto intro!: quiet_intros)
  qed
qed

lemma control_stray_transport [simp]: "control (stray_transport S)"
  by (simp add: control_def stray_transport_def)

lemma dispatcher_quiet_stray_transport [simp]: "dispatcher_quiet (stray_transport S) en True"
  by (simp add: dispatcher_quiet_def ExecRemoteUtilityStmt_def)

lemma nested_quiet_instances [simp]:
  "nested_quiet is_batch en" "nested_quiet is_foreign_entry en"
  "nested_quiet (stray_transport S) en"
  by (simp_all add: nested_quiet_def stray_transport_def)

lemma batch_free_instances [simp]:
  "batch_free (stray_transport S) ctx" "batch_free is_foreign_entry ctx"
  "batch_free P PROCESS_UTILITY_SUBCOMMAND"
  by (simp_all add: batch_free_def stray_transport_def)

lemma statement_quiet_instances [simp]:
  "statement_quiet is_batch en n q sent" "statement_quiet is_foreign_entry en n q sent"
  by (simp_all add: statement_quiet_silent)

subsection \<open>The change-notification batch\<close>

lemma outcome_PG_TRY:
  "outcome handler = Inr () \<Longrightarrow> outcome (PG_TRY body handler) = outcome body"
  by (auto simp: PG_TRY_def outcome_def split: sum.splits)

lemma events_PG_TRY:
  "events (PG_TRY body handler) =
     events body @ (case outcome body of Inl e \<Rightarrow> events handler | Inr v \<Rightarrow> [])"
  by (auto simp: PG_TRY_def outcome_def events_def split: sum.splits)

lemma events_try_finally:
  "outcome handler = Inr () \<Longrightarrow>
   events (seq (PG_TRY body handler) handler) = events body @ events handler"
  by (simp add: events_seq events_PG_TRY outcome_PG_TRY split: sum.splits)

lemma outcome_try_finally:
  "outcome handler = Inr () \<Longrightarrow>
   outcome (seq (PG_TRY body handler) handler) = outcome body"
  by (simp add: outcome_seq outcome_PG_TRY split: sum.splits)

lemma quiet_filter: "quiet P m \<Longrightarrow> filter P (events m) = []"
  by (simp add: quiet_def)

lemma quiet_switch_batch:
  "quiet is_batch (ProcessUtilitySlow_switch en n q ctx sent)"
  using quiet_recursion(4) [of is_batch en n q sent ctx] by simp

lemma ProcessUtilitySlow_unfold:
  "ProcessUtilitySlow en n q ctx sent tag =
     bind (if isCompleteQuery ctx
           then seq (emit EventTriggerBeginCompleteQuery) (return (BeginCompleteQuery_result en))
           else return False)
       (\<lambda>needCleanup.
          seq (PG_TRY (slow_body en n q ctx sent)
                 (if needCleanup then emit EventTriggerEndCompleteQuery else skip))
            (if needCleanup then emit EventTriggerEndCompleteQuery else skip))"
  by (simp only: ProcessUtilitySlow.simps slow_body_def)

lemma try_finally_events:
  "events (bind (if c then seq (emit b) (return r) else return False)
             (\<lambda>needCleanup.
                seq (PG_TRY body (if needCleanup then emit e else skip))
                  (if needCleanup then emit e else skip)))
     = (if c then b # events body @ (if r then [e] else []) else events body)"
  by (cases "outcome body")
    (simp_all add: events_bind events_seq outcome_seq events_PG_TRY outcome_PG_TRY)

lemma try_finally_outcome:
  "outcome (bind (if c then seq (emit b) (return r) else return False)
             (\<lambda>needCleanup.
                seq (PG_TRY body (if needCleanup then emit e else skip))
                  (if needCleanup then emit e else skip)))
     = outcome body"
  by (cases "outcome body")
    (simp_all add: outcome_bind outcome_seq outcome_PG_TRY)

lemma events_ProcessUtilitySlow:
  "events (ProcessUtilitySlow en n q ctx sent tag) =
     (if isCompleteQuery ctx
      then EventTriggerBeginCompleteQuery # events (slow_body en n q ctx sent) @
           (if BeginCompleteQuery_result en then [EventTriggerEndCompleteQuery] else [])
      else events (slow_body en n q ctx sent))"
  unfolding ProcessUtilitySlow_unfold by (rule try_finally_events)

lemma outcome_ProcessUtilitySlow:
  "outcome (ProcessUtilitySlow en n q ctx sent tag) = outcome (slow_body en n q ctx sent)"
  unfolding ProcessUtilitySlow_unfold by (rule try_finally_outcome)

lemma quiet_slow_body_batch: "quiet is_batch (slow_body en n q ctx sent)"
  unfolding slow_body_def by (auto intro!: quiet_intros quiet_switch_batch)

lemma batch_calls_ProcessUtilitySlow:
  "filter is_batch (events (ProcessUtilitySlow en parsetree queryString ctx sent completionTag))
     = (if isCompleteQuery ctx
        then EventTriggerBeginCompleteQuery #
             (if BeginCompleteQuery_result en then [EventTriggerEndCompleteQuery] else [])
        else [])"
  by (simp add: events_ProcessUtilitySlow quiet_filter [OF quiet_slow_body_batch])

text \<open>
  Claim C4. In the log of every execution of \<^verbatim>\<open>ProcessUtilitySlow\<close>, whether it returns
  or raises, the calls that open and close a batch are: none when the invocation is not a
  complete query (so a recursive sub-statement call never nests a batch); otherwise one
  \<^verbatim>\<open>EventTriggerBeginCompleteQuery\<close>, followed by exactly one
  \<^verbatim>\<open>EventTriggerEndCompleteQuery\<close> when the begin call opened a batch (returned true), and
  by none when it did not.
\<close>

theorem batch_paired:
  "filter is_batch (events (ProcessUtilitySlow en parsetree queryString ctx sent completionTag))
     = (if isCompleteQuery ctx
        then EventTriggerBeginCompleteQuery #
             (if BeginCompleteQuery_result en then [EventTriggerEndCompleteQuery] else [])
        else [])"
  by (rule batch_calls_ProcessUtilitySlow)

lemmas slow_eval =
  outcome_ProcessUtilitySlow events_ProcessUtilitySlow slow_body_def
  ProcessUtilitySlow_switch.simps ProcessUtility.simps standard_ProcessUtility.simps
  isCompleteQuery_def outcome_seq outcome_bind events_seq events_bind
  CreateDomainStmt_arm_def IndexStmt_arm_def initial_context_def ExecRemoteUtilityStmt_def
  check_xact_readonly_def CreateStmt_stmts_def discard_def


theorem batch_paired_witness:
  "outcome (ProcessUtilitySlow failing_env (T_CreateDomainStmt ''d'') ''CREATE DOMAIN d AS int''
              PROCESS_UTILITY_TOPLEVEL False None) = Inl (CollaboratorError 1) \<and>
   filter is_batch
     (events (ProcessUtilitySlow failing_env (T_CreateDomainStmt ''d'') ''CREATE DOMAIN d AS int''
                PROCESS_UTILITY_TOPLEVEL False None))
     = [EventTriggerBeginCompleteQuery, EventTriggerEndCompleteQuery] \<and>
   filter is_batch
     (events (ProcessUtilitySlow failing_env (T_CreateDomainStmt ''d'') ''CREATE DOMAIN d AS int''
                PROCESS_UTILITY_SUBCOMMAND True None))
     = []"
  using batch_paired [of failing_env "T_CreateDomainStmt ''d''" "''CREATE DOMAIN d AS int''"
          PROCESS_UTILITY_TOPLEVEL False None]
        batch_paired [of failing_env "T_CreateDomainStmt ''d''" "''CREATE DOMAIN d AS int''"
          PROCESS_UTILITY_SUBCOMMAND True None]
  by (simp add: slow_eval failing_env_def example_env_def)


subsection \<open>The sticky flag\<close>

lemma quiet_not_mem: "quiet P m \<Longrightarrow> ev \<in> set (events m) \<Longrightarrow> \<not> P ev"
  by (auto simp: quiet_def filter_empty_conv)

lemma steps_quiet_stray_transport:
  "steps_quiet (stray_transport S) n = (remote_steps n \<subseteq> S)"
  by (auto simp: steps_quiet_def stray_transport_def)

lemma quiet_stray_transport:
  "quiet (stray_transport S) m \<Longrightarrow> ExecInterXactUtility step \<in> set (events m) \<Longrightarrow> step \<in> S"
  by (auto dest!: quiet_not_mem simp: stray_transport_def)

lemma quiet_stray_transport_empty:
  "quiet (stray_transport {}) m \<Longrightarrow> filter is_transport (events m) = []"
proof -
  have "stray_transport {} = is_transport"
    by (rule ext) (simp add: stray_transport_def)
  then show "quiet (stray_transport {}) m \<Longrightarrow> filter is_transport (events m) = []"
    by (simp add: quiet_def)
qed

text \<open>
  In the run of a statement that arrives marked as sent to remote, a transport call
  executes a remote-query step of the statement tree.
\<close>

lemma forwarded_transport_steps:
  "quiet (stray_transport (remote_steps n)) (ProcessUtility en n q ctx True tag)"
proof -
  have "steps_quiet (stray_transport (remote_steps n)) n"
    by (simp add: steps_quiet_stray_transport)
  then have "statement_quiet (stray_transport (remote_steps n)) en n q True"
    by (simp add: statement_quiet_nested)
  then show ?thesis
    using quiet_recursion(1) [of "stray_transport (remote_steps n)" en n ctx True q tag]
    by (simp add: stray_transport_def)
qed

text \<open>
  Claim C3, as the code has it. A request marked as sent to remote is a no-op of the
  dispatcher. Calling the dispatcher with a request and then with the same request marked
  as sent to remote makes the transport calls of the first call alone: exactly one when the
  first call passes the short-circuits of the dispatcher. In the run of a statement that
  arrives marked as sent to remote, with all its nested sub-statements, every call of the
  transport executes a remote-query step of the statement tree, so none comes from the
  dispatcher, and there is none at all when the tree holds no such step. The sends that do
  not go through the dispatcher do not read the flag: the arms of a remote-query step, of
  TRUNCATE and of SET do the same whatever the flag, and so do the two materialized view
  arms when they send the data of the view.
\<close>

theorem forwarded_flag_sticky:
  "(sentToRemote c \<longrightarrow> ExecRemoteUtilityStmt en c = skip) \<and>
   filter is_transport (events (ExecRemoteUtilityStmt en c) @
                        events (ExecRemoteUtilityStmt en (c \<lparr> sentToRemote := True \<rparr>)))
     = filter is_transport (events (ExecRemoteUtilityStmt en c)) \<and>
   (IsCoordMaster en \<and> ctx_exec_type c \<noteq> EXEC_ON_NONE \<and> \<not> sentToRemote c \<and> NumDataNodes en \<noteq> 0
      \<longrightarrow> length (filter is_transport
                    (events (ExecRemoteUtilityStmt en c) @
                     events (ExecRemoteUtilityStmt en (c \<lparr> sentToRemote := True \<rparr>)))) = 1) \<and>
   (ExecInterXactUtility step
      \<in> set (events (ProcessUtility en parsetree queryString ctx True completionTag))
      \<longrightarrow> step \<in> remote_steps parsetree) \<and>
   (remote_steps parsetree = {}
      \<longrightarrow> filter is_transport
            (events (ProcessUtility en parsetree queryString ctx True completionTag)) = []) \<and>
   standard_ProcessUtility en (T_RemoteQuery step) queryString ctx sent completionTag
     = standard_ProcessUtility en (T_RemoteQuery step) queryString ctx True completionTag \<and>
   standard_ProcessUtility en (T_TruncateStmt ts) queryString ctx sent completionTag
     = standard_ProcessUtility en (T_TruncateStmt ts) queryString ctx True completionTag \<and>
   standard_ProcessUtility en (T_VariableSetStmt vs) queryString ctx sent completionTag
     = standard_ProcessUtility en (T_VariableSetStmt vs) queryString ctx True completionTag \<and>
   (\<not> into_skipData cs \<and> \<not> IsConnFromCoord en
      \<longrightarrow> CreateTableAsStmt_arm en cs queryString sent
            = CreateTableAsStmt_arm en cs queryString True) \<and>
   (\<not> ref_skipData rs \<and> \<not> IsConnFromCoord en
      \<longrightarrow> RefreshMatViewStmt_arm en rs queryString sent
            = RefreshMatViewStmt_arm en rs queryString True)"
proof -
  note run = forwarded_transport_steps [of parsetree en queryString ctx completionTag]
  have member: "step \<in> remote_steps parsetree"
    if "ExecInterXactUtility step
          \<in> set (events (ProcessUtility en parsetree queryString ctx True completionTag))"
    using quiet_stray_transport [OF run that] .
  have none: "filter is_transport
            (events (ProcessUtility en parsetree queryString ctx True completionTag)) = []"
    if "remote_steps parsetree = {}"
    using run that by (simp add: quiet_stray_transport_empty)
  have arms: "CreateTableAsStmt_arm en cs queryString sent
                = CreateTableAsStmt_arm en cs queryString True"
    if "\<not> into_skipData cs \<and> \<not> IsConnFromCoord en"
    using that by (simp add: CreateTableAsStmt_arm_def)
  have arms': "RefreshMatViewStmt_arm en rs queryString sent
                = RefreshMatViewStmt_arm en rs queryString True"
    if "\<not> ref_skipData rs \<and> \<not> IsConnFromCoord en"
    using that by (simp add: RefreshMatViewStmt_arm_def)
  from member none arms arms' show ?thesis
    by (simp add: ExecRemoteUtilityStmt_def standard_ProcessUtility.simps)
qed

text \<open>
  The theorem at the example request, and at the remote-query step of \<open>create_table\<close>
  entered as the CREATE TABLE loop enters it; the same CREATE TABLE arriving marked as
  sent to remote holds no such step and makes no transport call.
\<close>

theorem forwarded_flag_sticky_witness:
  "ExecRemoteUtilityStmt example_env (example_context \<lparr> sentToRemote := True \<rparr>) = skip \<and>
   length (filter is_transport
             (events (ExecRemoteUtilityStmt example_env example_context) @
              events (ExecRemoteUtilityStmt example_env
                        (example_context \<lparr> sentToRemote := True \<rparr>)))) = 1 \<and>
   ExecInterXactUtility create_table_step
     \<in> set (events (ProcessUtility example_env (T_RemoteQuery create_table_step)
                      ''CREATE TABLE t (a int primary key)'' PROCESS_UTILITY_SUBCOMMAND True
                      None)) \<and>
   create_table_step \<in> remote_steps (T_RemoteQuery create_table_step) \<and>
   remote_steps create_table = {} \<and>
   filter is_transport
     (events (ProcessUtility example_env create_table ''CREATE TABLE t (a int primary key)''
                PROCESS_UTILITY_TOPLEVEL True None)) = [] \<and>
   \<not> ref_skipData refresh_stmt \<and> \<not> IsConnFromCoord example_env \<and>
   RefreshMatViewStmt_arm example_env refresh_stmt ''REFRESH MATERIALIZED VIEW mv'' False
     = RefreshMatViewStmt_arm example_env refresh_stmt ''REFRESH MATERIALIZED VIEW mv'' True \<and>
   \<not> into_skipData matview_stmt \<and>
   CreateTableAsStmt_arm example_env matview_stmt ''CREATE MATERIALIZED VIEW mv AS SELECT 1''
       False
     = CreateTableAsStmt_arm example_env matview_stmt ''CREATE MATERIALIZED VIEW mv AS SELECT 1''
         True"
proof -
  have ev: "ExecInterXactUtility create_table_step
      \<in> set (events (ProcessUtility example_env (T_RemoteQuery create_table_step)
                      ''CREATE TABLE t (a int primary key)'' PROCESS_UTILITY_SUBCOMMAND True
                      None))"
    by (simp add: slow_eval example_env_def)
  have none: "remote_steps create_table = {}"
    by (simp add: create_table_def create_index_def)
  have data: "\<not> ref_skipData refresh_stmt \<and> \<not> IsConnFromCoord example_env"
    "\<not> into_skipData matview_stmt"
    by (simp_all add: refresh_stmt_def matview_stmt_def example_env_def)
  have side: "IsCoordMaster example_env" "ctx_exec_type example_context \<noteq> EXEC_ON_NONE"
    "\<not> sentToRemote example_context" "NumDataNodes example_env \<noteq> 0"
    by (simp_all add: example_env_def example_context_def)
  from forwarded_flag_sticky
         [where c = "example_context \<lparr> sentToRemote := True \<rparr>" and en = example_env
            and step = create_table_step and parsetree = "T_RemoteQuery create_table_step"
            and queryString = "''CREATE TABLE t (a int primary key)''"
            and ctx = PROCESS_UTILITY_SUBCOMMAND and completionTag = None and sent = False
            and ts = truncate_stmt and vs = set_stmt and cs = matview_stmt
            and rs = refresh_stmt]
    ev
  have first: "ExecRemoteUtilityStmt example_env (example_context \<lparr> sentToRemote := True \<rparr>)
                 = skip"
    "create_table_step \<in> remote_steps (T_RemoteQuery create_table_step)"
    by simp_all
  from forwarded_flag_sticky
         [where c = example_context and en = example_env and step = create_table_step
            and parsetree = create_table
            and queryString = "''CREATE TABLE t (a int primary key)''"
            and ctx = PROCESS_UTILITY_TOPLEVEL and completionTag = None and sent = False
            and ts = truncate_stmt and vs = set_stmt and cs = matview_stmt
            and rs = refresh_stmt]
    none side
  have second: "length (filter is_transport
             (events (ExecRemoteUtilityStmt example_env example_context) @
              events (ExecRemoteUtilityStmt example_env
                        (example_context \<lparr> sentToRemote := True \<rparr>)))) = 1"
    "filter is_transport
       (events (ProcessUtility example_env create_table ''CREATE TABLE t (a int primary key)''
                  PROCESS_UTILITY_TOPLEVEL True None)) = []"
    by auto
  from forwarded_flag_sticky
         [where c = example_context and en = example_env and step = create_table_step
            and parsetree = create_table
            and queryString = "''REFRESH MATERIALIZED VIEW mv''"
            and ctx = PROCESS_UTILITY_TOPLEVEL and completionTag = None and sent = False
            and ts = truncate_stmt and vs = set_stmt and cs = matview_stmt
            and rs = refresh_stmt]
    data
  have third: "RefreshMatViewStmt_arm example_env refresh_stmt ''REFRESH MATERIALIZED VIEW mv''
                 False
     = RefreshMatViewStmt_arm example_env refresh_stmt ''REFRESH MATERIALIZED VIEW mv'' True"
    by simp
  from forwarded_flag_sticky
         [where c = example_context and en = example_env and step = create_table_step
            and parsetree = create_table
            and queryString = "''CREATE MATERIALIZED VIEW mv AS SELECT 1''"
            and ctx = PROCESS_UTILITY_TOPLEVEL and completionTag = None and sent = False
            and ts = truncate_stmt and vs = set_stmt and cs = matview_stmt
            and rs = refresh_stmt]
    data
  have fourth: "CreateTableAsStmt_arm example_env matview_stmt
                  ''CREATE MATERIALIZED VIEW mv AS SELECT 1'' False
     = CreateTableAsStmt_arm example_env matview_stmt
         ''CREATE MATERIALIZED VIEW mv AS SELECT 1'' True"
    by simp
  from first second third fourth ev none data show ?thesis by simp
qed

text \<open>
  Claim C3 fails as stated: entered with the flag true, as the loops of the orchestrator
  enter it, the remote-query step of \<open>create_table\<close> is executed by the transport.
\<close>

theorem forwarded_step_sent_counterexample:
  "events (ProcessUtility example_env (T_RemoteQuery create_table_step)
             ''CREATE TABLE t (a int primary key)'' PROCESS_UTILITY_SUBCOMMAND True None)
     = [Enter_ProcessUtility (T_RemoteQuery create_table_step) PROCESS_UTILITY_SUBCOMMAND True,
        ExecInterXactUtility create_table_step]"
  by (simp add: slow_eval example_env_def)

text \<open>
  The other sends that do not read the flag, on the example cluster: a SET, a TRUNCATE and
  a REFRESH MATERIALIZED VIEW that arrive with the flag true reach the pooler, the
  truncation and the sending of the view's data.
\<close>

lemma forwarded_sends_without_dispatcher:
  "events (ProcessUtility example_env (T_VariableSetStmt set_stmt) ''SET search_path = s1''
             PROCESS_UTILITY_TOPLEVEL True None)
     = [Enter_ProcessUtility (T_VariableSetStmt set_stmt) PROCESS_UTILITY_TOPLEVEL True,
        ExecSetVariableStmt set_stmt True,
        PoolManagerSetCommand POOL_CMD_GLOBAL_SET ''SET search_path = s1'']"
  "events (ProcessUtility example_env (T_TruncateStmt truncate_stmt) ''TRUNCATE t''
             PROCESS_UTILITY_TOPLEVEL True None)
     = [Enter_ProcessUtility (T_TruncateStmt truncate_stmt) PROCESS_UTILITY_TOPLEVEL True,
        ExecuteTruncate truncate_stmt ''TRUNCATE t'']"
  "pgxc_send_matview_data (ref_relation refresh_stmt) ''REFRESH MATERIALIZED VIEW mv''
     \<in> set (events (ProcessUtility example_env (T_RefreshMatViewStmt refresh_stmt)
                      ''REFRESH MATERIALIZED VIEW mv'' PROCESS_UTILITY_TOPLEVEL True None))"
  by (simp_all add: slow_eval example_env_def set_stmt_def refresh_stmt_def
      VariableSetStmt_arm_def PoolManagerSetCommand_checked_def RefreshMatViewStmt_arm_def
      events_PG_TRY outcome_PG_TRY)

subsection \<open>Sub-statements are entered as sent to remote\<close>

lemma events_discard [simp]: "events (discard m) = events m"
  by (simp add: discard_def events_bind split: sum.splits)

lemma outcome_discard:
  "outcome (discard m) = (case outcome m of Inl e \<Rightarrow> Inl e | Inr v \<Rightarrow> Inr ())"
  by (simp add: discard_def outcome_bind split: sum.splits)











subsection \<open>Command counter advances of CREATE TABLE\<close>

lemma advances_simps [simp]:
  "advances [] = 0"
  "advances (ev # evs) = (if is_advance ev then 1 else 0) + advances evs"
  "advances (xs @ ys) = advances xs + advances ys"
  by (simp_all add: advances_def)

lemma CreateStmt_foreach_advances:
  "outcome (CreateStmt_foreach en q stmts) = Inr () \<Longrightarrow>
   advances (events (CreateStmt_foreach en q stmts))
     = (length stmts - 1) + sum_list (map (sub_advances en q) stmts)"
proof (induction stmts)
  case Nil
  then show ?case by simp
next
  case (Cons st rest)
  let ?head = "case st of
            T_CreateStmt cs _ _ \<Rightarrow>
              block [call en (DefineRelation cs RELKIND_RELATION),
                     call en (EventTriggerCollectSimpleCommand st),
                     emit CommandCounterIncrement,
                     call en (transformRelOptions cs),
                     call en (heap_reloptions cs),
                     call en (NewRelationCreateToastTable cs)]
          | T_CreateForeignTableStmt cs _ _ \<Rightarrow>
              block [call en (DefineRelation cs RELKIND_FOREIGN_TABLE),
                     call en (CreateForeignTable cs),
                     call en (EventTriggerCollectSimpleCommand st)]
          | _ \<Rightarrow>
              discard (ProcessUtility en st q PROCESS_UTILITY_SUBCOMMAND True None)"
  from Cons.prems have h: "outcome ?head = Inr ()"
    and r: "outcome (CreateStmt_foreach en q rest) = Inr ()"
    by (auto simp: outcome_seq split: sum.splits if_splits)
  have ha: "advances (events ?head) = sub_advances en q st"
    using h by (cases st)
      (auto simp: sub_advances_def events_seq outcome_seq split: sum.splits option.splits)
  have "advances (events (CreateStmt_foreach en q (st # rest)))
      = advances (events ?head) + (if rest \<noteq> [] then 1 else 0)
        + advances (events (CreateStmt_foreach en q rest))"
    using h by (simp add: events_seq)
  with ha Cons.IH [OF r] show ?case
    by (cases rest) simp_all
qed

text \<open>
  Claim C8, as the code has it. When a CREATE TABLE statement succeeds, the loop has run
  over the executed list, which is the list of parse analysis itself when the statement was
  already sent to remote. The command counter advances once between each pair of
  consecutive entries of that list, once more inside each table sub-statement (after the
  relation is defined, before its toast table), and as often as the recursively processed
  sub-statements advance it. The batch calls are one begin and, when the begin opened a
  batch, one end, for a complete query, and none otherwise.
\<close>

theorem create_table_advances:
  assumes ok: "outcome (ProcessUtilitySlow en (T_CreateStmt cs stmts tr) queryString ctx sent
                          completionTag) = Inr ()"
  shows "\<exists>executed.
           CreateStmt_stmts en (T_CreateStmt cs stmts tr) stmts tr queryString sent = Inr executed \<and>
           (sent \<longrightarrow> executed = stmts) \<and>
           advances (events (ProcessUtilitySlow en (T_CreateStmt cs stmts tr) queryString ctx sent
                               completionTag))
             = (length executed - 1) + sum_list (map (sub_advances en queryString) executed) \<and>
           filter is_batch (events (ProcessUtilitySlow en (T_CreateStmt cs stmts tr) queryString
                                      ctx sent completionTag))
             = (if isCompleteQuery ctx
                then EventTriggerBeginCompleteQuery #
                     (if BeginCompleteQuery_result en then [EventTriggerEndCompleteQuery] else [])
                else [])"
proof -
  let ?n = "T_CreateStmt cs stmts tr"
  from ok have body: "outcome (slow_body en ?n queryString ctx sent) = Inr ()"
    by (simp add: outcome_ProcessUtilitySlow)
  then obtain executed where
    ex: "CreateStmt_stmts en ?n stmts tr queryString sent = Inr executed"
    and loop: "outcome (CreateStmt_foreach en queryString executed) = Inr ()"
    by (cases "CreateStmt_stmts en ?n stmts tr queryString sent")
      (auto simp: slow_body_def ProcessUtilitySlow_switch.simps outcome_seq outcome_bind
        split: sum.splits if_splits)
  have sw: "events (ProcessUtilitySlow_switch en ?n queryString ctx sent)
      = events (CreateStmt_foreach en queryString executed)"
    and swo: "outcome (ProcessUtilitySlow_switch en ?n queryString ctx sent) = Inr True"
    using ex loop by (simp_all add: ProcessUtilitySlow_switch.simps events_seq outcome_seq)
  have "advances (events (slow_body en ?n queryString ctx sent))
      = advances (events (CreateStmt_foreach en queryString executed))"
    using body swo by (auto simp: slow_body_def events_seq events_bind outcome_seq outcome_bind sw
        split: sum.splits if_splits)
  then have adv: "advances (events (ProcessUtilitySlow en ?n queryString ctx sent completionTag))
      = (length executed - 1) + sum_list (map (sub_advances en queryString) executed)"
    by (simp add: events_ProcessUtilitySlow CreateStmt_foreach_advances [OF loop])
  have "sent \<longrightarrow> executed = stmts"
    using ex by (auto dest: CreateStmt_stmts_sent)
  with ex adv batch_calls_ProcessUtilitySlow show ?thesis by blast
qed

theorem create_table_advances_witness:
  "outcome (ProcessUtilitySlow example_env create_table ''CREATE TABLE t (a int primary key)''
              PROCESS_UTILITY_TOPLEVEL True None) = Inr () \<and>
   advances (events (ProcessUtilitySlow example_env create_table
                       ''CREATE TABLE t (a int primary key)'' PROCESS_UTILITY_TOPLEVEL True None))
     = 2 \<and>
   filter is_batch (events (ProcessUtilitySlow example_env create_table
                       ''CREATE TABLE t (a int primary key)'' PROCESS_UTILITY_TOPLEVEL True None))
     = [EventTriggerBeginCompleteQuery, EventTriggerEndCompleteQuery]"
proof -
  have ok: "outcome (ProcessUtilitySlow example_env
               (T_CreateStmt table_t [T_CreateStmt table_t [] None, create_index] None)
               ''CREATE TABLE t (a int primary key)'' PROCESS_UTILITY_TOPLEVEL True None) = Inr ()"
    by (simp add: slow_eval example_simps create_index_def table_t_def outcome_discard)
  have sub: "sub_advances example_env ''CREATE TABLE t (a int primary key)'' create_index = 0"
    by (simp add: sub_advances_def slow_eval example_simps create_index_def)
  from create_table_advances [OF ok] ok sub show ?thesis
    by (auto simp: create_table_def sub_advances_def isCompleteQuery_def example_env_def)
qed

text \<open>
  Claim C8 fails as stated: a CREATE TABLE whose parse analysis gives one sub-statement
  (\<open>N = 1\<close>), already sent to remote, advances the command counter once, not \<open>N - 1 = 0\<close>
  times.
\<close>

theorem create_table_single_counterexample:
  "create_table_single = T_CreateStmt table_t [T_CreateStmt table_t [] None] None \<and>
   length [T_CreateStmt table_t [] None] = 1 \<and>
   outcome (ProcessUtilitySlow example_env create_table_single ''CREATE TABLE t (a int)''
              PROCESS_UTILITY_TOPLEVEL True None) = Inr () \<and>
   advances (events (ProcessUtilitySlow example_env create_table_single ''CREATE TABLE t (a int)''
                       PROCESS_UTILITY_TOPLEVEL True None)) = 1"
  by (simp add: create_table_single_def slow_eval example_simps table_t_def)

end
